theory Spec2Isabelle
  imports Complex_Main
begin

section \<open>The interactive terminal session of the dashboard\<close>

text \<open>
  This theory embeds the \<^verbatim>\<open>Terminal\<close> React component (the file with
  \<^verbatim>\<open>export function Terminal\<close>): its refs and state hooks, the two effects, and
  every callback the lifecycle effect installs on the WebSocket, on the xterm instance,
  on the ResizeObserver and on the timers. Objects that the component creates and that
  callbacks capture (sockets, emulators, timers) live in explicit stores indexed by
  identity; a closure is the record of the identities it captured.

  Strings are byte lists (UTF-8), so \<^verbatim>\<open>new Blob([s]).size\<close> is \<open>length s\<close>.
  The theme, font-size, fullscreen and clear controls only restyle or clear the
  current emulator and are not embedded.
\<close>

subsection \<open>JavaScript values and the library calls the component makes\<close>

datatype js_error = SyntaxError | TypeError | InvalidStateError

text \<open>
  A value as \<^verbatim>\<open>JSON.parse\<close> can return it; \<open>JUndefined\<close> is the result of reading
  an absent property. A number is held as the text that JavaScript prints for it
  (\<^verbatim>\<open>42\<close>, \<^verbatim>\<open>-0.5\<close>, \<^verbatim>\<open>1e+21\<close>), which identifies it: the component never
  computes with a number it receives. An object is the list of its own properties, each
  key once.
\<close>

datatype jsval =
    JUndefined
  | JNull
  | JBool bool
  | JNum string
  | JStr string
  | JArr "jsval list"
  | JObj "(string \<times> jsval) list"

text \<open>
  \<^verbatim>\<open>v.k\<close> for a key \<open>k\<close> that no prototype defines (\<^verbatim>\<open>type\<close>, \<^verbatim>\<open>data\<close>): a
  TypeError on null and undefined, the own property of an object, undefined otherwise.
\<close>

fun get_prop :: "jsval \<Rightarrow> string \<Rightarrow> js_error + jsval" where
  "get_prop JUndefined k = Inl TypeError"
| "get_prop JNull k = Inl TypeError"
| "get_prop (JObj kvs) k = Inr (case map_of kvs k of None \<Rightarrow> JUndefined | Some v \<Rightarrow> v)"
| "get_prop v k = Inr JUndefined"

definition digit_char :: "nat \<Rightarrow> char" where
  "digit_char d = char_of (48 + d)"

fun show_nat :: "nat \<Rightarrow> string" where
  "show_nat n = (if n < 10 then [digit_char n] else show_nat (n div 10) @ [digit_char (n mod 10)])"

declare show_nat.simps [simp del]

fun join_comma :: "string list \<Rightarrow> string" where
  "join_comma [] = []"
| "join_comma [s] = s"
| "join_comma (s # t # ss) = s @ '','' @ join_comma (t # ss)"

text \<open>
  The string conversion that a template literal applies to an interpolated value. An
  object is converted by its \<^verbatim>\<open>toString\<close> method: the one of the prototype prints
  \<^verbatim>\<open>[object Object]\<close>, but an own property of that name, which in parsed JSON is
  never a function, hides it, and the conversion throws a TypeError. An array joins the
  conversions of its elements, left to right, null and undefined elements as empty.
\<close>

fun js_to_string :: "jsval \<Rightarrow> js_error + string"
  and elements_to_strings :: "jsval list \<Rightarrow> js_error + string list" where
  "js_to_string JUndefined = Inr ''undefined''"
| "js_to_string JNull = Inr ''null''"
| "js_to_string (JBool b) = Inr (if b then ''true'' else ''false'')"
| "js_to_string (JNum n) = Inr n"
| "js_to_string (JStr s) = Inr s"
| "js_to_string (JArr vs) =
     (case elements_to_strings vs of Inl e \<Rightarrow> Inl e | Inr ss \<Rightarrow> Inr (join_comma ss))"
| "js_to_string (JObj kvs) =
     (if map_of kvs ''toString'' \<noteq> None then Inl TypeError else Inr ''[object Object]'')"
| "elements_to_strings [] = Inr []"
| "elements_to_strings (v # vs) =
     (case (if v = JNull \<or> v = JUndefined then Inr [] else js_to_string v) of
        Inl e \<Rightarrow> Inl e
      | Inr s \<Rightarrow> (case elements_to_strings vs of Inl e \<Rightarrow> Inl e | Inr ss \<Rightarrow> Inr (s # ss)))"

text \<open>\<^verbatim>\<open>JSON.stringify\<close> of a string: quotes, backslashes and control bytes are escaped.\<close>

definition hex_digit :: "nat \<Rightarrow> char" where
  "hex_digit d = (if d < 10 then char_of (48 + d) else char_of (87 + d))"

definition json_escape_char :: "char \<Rightarrow> string" where
  "json_escape_char c =
     (let n = (of_char c :: nat) in
      if n = 0x22 then [CHR 0x5C, CHR 0x22]
      else if n = 0x5C then [CHR 0x5C, CHR 0x5C]
      else if n = 8 then [CHR 0x5C, CHR ''b'']
      else if n = 9 then [CHR 0x5C, CHR ''t'']
      else if n = 10 then [CHR 0x5C, CHR ''n'']
      else if n = 12 then [CHR 0x5C, CHR ''f'']
      else if n = 13 then [CHR 0x5C, CHR ''r'']
      else if n < 0x20 then [CHR 0x5C, CHR ''u'', CHR ''0'', CHR ''0'', hex_digit (n div 16), hex_digit (n mod 16)]
      else [c])"

definition json_string :: "string \<Rightarrow> string" where
  "json_string s = CHR 0x22 # concat (map json_escape_char s) @ [CHR 0x22]"

text \<open>The three outbound frames, as \<^verbatim>\<open>JSON.stringify\<close> writes the object literals.\<close>

definition stdin_message :: "string \<Rightarrow> string" where
  "stdin_message d =
     [CHR ''{'', CHR 0x22] @ ''type'' @ [CHR 0x22, CHR '':''] @ json_string ''stdin'' @
     [CHR '','', CHR 0x22] @ ''data'' @ [CHR 0x22, CHR '':''] @ json_string d @ [CHR ''}'']"

definition resize_message :: "nat \<Rightarrow> nat \<Rightarrow> string" where
  "resize_message c r =
     [CHR ''{'', CHR 0x22] @ ''type'' @ [CHR 0x22, CHR '':''] @ json_string ''resize'' @
     [CHR '','', CHR 0x22] @ ''cols'' @ [CHR 0x22, CHR '':''] @ show_nat c @
     [CHR '','', CHR 0x22] @ ''rows'' @ [CHR 0x22, CHR '':''] @ show_nat r @ [CHR ''}'']"

definition ping_message :: string where
  "ping_message =
     [CHR ''{'', CHR 0x22] @ ''type'' @ [CHR 0x22, CHR '':''] @ json_string ''ping'' @ [CHR ''}'']"

text \<open>The colour escapes of the status lines: \<^verbatim>\<open>\x1b[3Xm ... \x1b[0m\<close>.\<close>

definition sgr :: "string \<Rightarrow> string \<Rightarrow> string" where
  "sgr colour s = CHR 0x1B # ''['' @ colour @ ''m'' @ s @ CHR 0x1B # ''[0m''"

abbreviation red :: "string \<Rightarrow> string" where "red \<equiv> sgr ''31''"
abbreviation green :: "string \<Rightarrow> string" where "green \<equiv> sgr ''32''"
abbreviation blue :: "string \<Rightarrow> string" where "blue \<equiv> sgr ''34''"

subsection \<open>WebSocket, emulator and timer objects\<close>

datatype ready_state = CONNECTING | OPEN | CLOSING | CLOSED

text \<open>
  A socket records what the component did with it: the frames accepted by
  \<^verbatim>\<open>send\<close> and the status code of every \<^verbatim>\<open>close\<close> call (\<open>None\<close> when the call
  passes no code, so that the Close frame has no body).
\<close>

record websocket =
  ws_url :: string
  readyState :: ready_state
  ws_sent :: "string list"
  ws_closes :: "nat option list"

text \<open>\<^verbatim>\<open>send\<close> throws while connecting, queues while open and discards afterwards.\<close>

definition ws_send :: "string \<Rightarrow> websocket \<Rightarrow> js_error + websocket" where
  "ws_send m ws =
     (case readyState ws of
        CONNECTING \<Rightarrow> Inl InvalidStateError
      | OPEN \<Rightarrow> Inr (ws\<lparr>ws_sent := ws_sent ws @ [m]\<rparr>)
      | _ \<Rightarrow> Inr ws)"

definition ws_close :: "nat option \<Rightarrow> websocket \<Rightarrow> websocket" where
  "ws_close code ws =
     ws\<lparr>ws_closes := ws_closes ws @ [code],
        readyState := (case readyState ws of CLOSED \<Rightarrow> CLOSED | _ \<Rightarrow> CLOSING)\<rparr>"

datatype term_op = Write jsval | Writeln string

text \<open>
  An emulator records the calls made on it, in order; what a disposed emulator does with
  a write is the emulator's business and is not modelled.
\<close>

record xterm =
  disposed :: bool
  cols :: nat
  rows :: nat
  term_out :: "term_op list"

definition term_write :: "jsval \<Rightarrow> xterm \<Rightarrow> xterm" where
  "term_write v x = x\<lparr>term_out := term_out x @ [Write v]\<rparr>"

definition term_writeln :: "string \<Rightarrow> xterm \<Rightarrow> xterm" where
  "term_writeln s x = x\<lparr>term_out := term_out x @ [Writeln s]\<rparr>"

definition term_dispose :: "xterm \<Rightarrow> xterm" where
  "term_dispose x = x\<lparr>disposed := True\<rparr>"

text \<open>
  The callbacks handed to \<^verbatim>\<open>setInterval\<close> and \<^verbatim>\<open>setTimeout\<close>: the sampling
  timer, the keepalive of one socket, and the delayed first resize of one session.
  A timer's identity is its position in the store; a ref that holds one is truthy, as
  the positive handles of the browser are.
\<close>

datatype timer_kind = SpeedTimer | PingTimer nat | ResizeTimeout nat

record timer =
  t_kind :: timer_kind
  t_period :: nat
  t_active :: bool

subsection \<open>Props, state hooks and refs of the component\<close>

datatype terminal_type = Node | Pod

text \<open>
  A pod of the \<^verbatim>\<open>pods\<close> prop is its \<^verbatim>\<open>metadata?.name\<close>; a container is its
  \<^verbatim>\<open>name\<close>. An absent prop is \<open>None\<close>; \<^verbatim>\<open>containers\<close> defaults to the empty
  list and \<^verbatim>\<open>type\<close> to \<^verbatim>\<open>'pod'\<close> in the parameter list, so they are total here.
\<close>

record terminal_props =
  p_type :: terminal_type
  p_namespace :: "string option"
  p_podName :: "string option"
  p_nodeName :: "string option"
  p_pods :: "string option list option"
  p_containers :: "string list"

text \<open>
  What the effect reads from the page: location, build mode and local storage, and the
  size that \<^verbatim>\<open>fitAddon.fit()\<close> computes for a new emulator (\<open>None\<close> when the
  element has no size yet; the emulator then keeps its default of 80 by 24).
\<close>

record page =
  location_protocol :: string
  location_host :: string
  is_dev :: bool
  current_cluster :: "string option"
  fit_size :: "(nat \<times> nat) option"

record network_stats =
  lastReset :: int
  bytesReceived :: nat
  bytesSent :: nat
  lastUpdate :: int

text \<open>
  What one run of the lifecycle effect leaves behind for its callbacks: the emulator and
  the socket it created, the \<^verbatim>\<open>type\<close> it rendered with, and whether its
  ResizeObserver is still connected.
\<close>

record session =
  s_term :: nat
  s_ws :: nat
  s_type :: terminal_type
  s_observing :: bool

datatype console_entry = ParseFailure js_error | SocketFailure

record state =
  props :: terminal_props
  selectedPod :: string
  selectedContainer :: string
  isConnected :: bool
  networkSpeed :: "rat \<times> rat"
  terminalRef :: bool
  xtermRef :: "nat option"
  fitAddonRef :: "nat option"
  wsRef :: "nat option"
  networkStatsRef :: network_stats
  speedUpdateTimerRef :: "nat option"
  pingTimerRef :: "nat option"
  terminals :: "xterm list"
  sockets :: "websocket list"
  timers :: "timer list"
  sessions :: "session list"
  cleanup :: "nat option"
  console :: "console_entry list"

text \<open>Truthiness of an optional string: defined and not empty.\<close>

definition or_else :: "string option \<Rightarrow> string \<Rightarrow> string" where
  "or_else a b = (case a of None \<Rightarrow> b | Some s \<Rightarrow> if s = [] then b else s)"

definition template :: "string option \<Rightarrow> string" where
  "template a = (case a of None \<Rightarrow> ''undefined'' | Some s \<Rightarrow> s)"

subsection \<open>Store updates\<close>

definition upd_term :: "nat \<Rightarrow> (xterm \<Rightarrow> xterm) \<Rightarrow> state \<Rightarrow> state" where
  "upd_term t f st = st\<lparr>terminals := (terminals st)[t := f (terminals st ! t)]\<rparr>"

definition upd_ws :: "nat \<Rightarrow> (websocket \<Rightarrow> websocket) \<Rightarrow> state \<Rightarrow> state" where
  "upd_ws w f st = st\<lparr>sockets := (sockets st)[w := f (sockets st ! w)]\<rparr>"

definition clearInterval :: "nat \<Rightarrow> state \<Rightarrow> state" where
  "clearInterval i st = st\<lparr>timers := (timers st)[i := (timers st ! i)\<lparr>t_active := False\<rparr>]\<rparr>"

definition clear_ref :: "nat option \<Rightarrow> state \<Rightarrow> state" where
  "clear_ref r st = (case r of None \<Rightarrow> st | Some i \<Rightarrow> clearInterval i st)"

definition setInterval :: "timer_kind \<Rightarrow> nat \<Rightarrow> state \<Rightarrow> state" where
  "setInterval k ms st = st\<lparr>timers := timers st @ [\<lparr>t_kind = k, t_period = ms, t_active = True\<rparr>]\<rparr>"

subsection \<open>The first effect and the selection callbacks\<close>

text \<open>
  \<^verbatim>\<open>setSelectedPod(podName || pods?.[0]?.metadata?.name || '')\<close> and
  \<^verbatim>\<open>setSelectedContainer(containers.length > 0 ? containers[0].name : '')\<close>.
\<close>

definition first_pod_name :: "string option list option \<Rightarrow> string option" where
  "first_pod_name ps = (case ps of None \<Rightarrow> None | Some [] \<Rightarrow> None | Some (p # _) \<Rightarrow> p)"

definition init_selection :: "state \<Rightarrow> state" where
  "init_selection st =
     st\<lparr>selectedPod := or_else (p_podName (props st)) (or_else (first_pod_name (p_pods (props st))) []),
        selectedContainer := (case p_containers (props st) of [] \<Rightarrow> [] | c # _ \<Rightarrow> c)\<rparr>"

definition handlePodChange :: "string option \<Rightarrow> state \<Rightarrow> state" where
  "handlePodChange podName st = st\<lparr>selectedPod := or_else podName []\<rparr>"

definition handleContainerChange :: "string option \<Rightarrow> state \<Rightarrow> state" where
  "handleContainerChange containerName st =
     (if or_else containerName [] \<noteq> [] then st\<lparr>selectedContainer := or_else containerName []\<rparr> else st)"

definition updateNetworkStats :: "nat \<Rightarrow> bool \<Rightarrow> state \<Rightarrow> state" where
  "updateNetworkStats dataSize isOutgoing st =
     (let stats = networkStatsRef st in
      if isOutgoing then st\<lparr>networkStatsRef := stats\<lparr>bytesSent := bytesSent stats + dataSize\<rparr>\<rparr>
      else st\<lparr>networkStatsRef := stats\<lparr>bytesReceived := bytesReceived stats + dataSize\<rparr>\<rparr>)"

subsection \<open>The callbacks installed by the lifecycle effect\<close>

text \<open>\<^verbatim>\<open>websocket.onopen\<close>, run at time \<open>now\<close> (\<^verbatim>\<open>Date.now()\<close>).\<close>

definition type_name :: "terminal_type \<Rightarrow> string" where
  "type_name ty = (case ty of Pod \<Rightarrow> ''pod'' | Node \<Rightarrow> ''node'')"

definition onopen :: "session \<Rightarrow> int \<Rightarrow> state \<Rightarrow> state" where
  "onopen s now st =
     (let st1 = st\<lparr>isConnected := True,
                   networkStatsRef := \<lparr>lastReset = now, bytesReceived = 0, bytesSent = 0, lastUpdate = now\<rparr>,
                   networkSpeed := (0, 0)\<rparr>;
          st2 = clear_ref (speedUpdateTimerRef st1) st1;
          st3 = (setInterval SpeedTimer 500 st2)\<lparr>speedUpdateTimerRef := Some (length (timers st2))\<rparr>;
          st4 = clear_ref (pingTimerRef st3) st3;
          st5 = (setInterval (PingTimer (s_ws s)) 30000 st4)\<lparr>pingTimerRef := Some (length (timers st4))\<rparr>;
          st6 = upd_term (s_term s)
                  (term_writeln (green (''Connected to '' @ type_name (s_type s) @ '' terminal!''))) st5
      in upd_term (s_term s) (term_writeln []) st6)"

text \<open>
  The body of the sampling interval (every 500 ms). The rates are exact quotients here;
  the code computes them in floating point, so a displayed value can differ in the last
  digit. Zero and the comparisons with 0 and 3 are exact in both.
\<close>

definition speed_tick :: "int \<Rightarrow> state \<Rightarrow> state" where
  "speed_tick now st =
     (let stats = networkStatsRef st;
          timeDiff = (of_int (now - lastReset stats) :: rat) / 1000
      in if timeDiff > 0 then
           (let st1 = st\<lparr>networkSpeed := (of_nat (bytesSent stats) / timeDiff,
                                           of_nat (bytesReceived stats) / timeDiff)\<rparr>
            in if timeDiff \<ge> 3
               then st1\<lparr>networkStatsRef := stats\<lparr>lastReset := now, bytesSent := 0, bytesReceived := 0\<rparr>\<rparr>
               else st1)
         else st)"

text \<open>
  A callback that can throw returns the exception that escapes it, if any, together
  with the state it has reached by then.
\<close>

definition send_frame :: "nat \<Rightarrow> string \<Rightarrow> state \<Rightarrow> js_error option \<times> state" where
  "send_frame w message st =
     (case ws_send message (sockets st ! w) of
        Inl e \<Rightarrow> (Some e, st)
      | Inr ws' \<Rightarrow> (None, updateNetworkStats (length message) True (st\<lparr>sockets := (sockets st)[w := ws']\<rparr>)))"

text \<open>The body of the keepalive interval (every 30000 ms) of socket \<open>w\<close>.\<close>

definition ping_tick :: "nat \<Rightarrow> state \<Rightarrow> js_error option \<times> state" where
  "ping_tick w st =
     (if readyState (sockets st ! w) = OPEN then send_frame w ping_message st else (None, st))"

text \<open>\<^verbatim>\<open>terminal.onData\<close>: a keystroke of the user.\<close>

definition onData :: "session \<Rightarrow> string \<Rightarrow> state \<Rightarrow> js_error option \<times> state" where
  "onData s d st =
     (if readyState (sockets st ! s_ws s) = OPEN then send_frame (s_ws s) (stdin_message d) st
      else (None, st))"

definition handleTerminalResize :: "session \<Rightarrow> state \<Rightarrow> js_error option \<times> state" where
  "handleTerminalResize s st =
     (if fitAddonRef st \<noteq> None \<and> readyState (sockets st ! s_ws s) = OPEN then
        send_frame (s_ws s)
          (resize_message (cols (terminals st ! s_term s)) (rows (terminals st ! s_term s))) st
      else (None, st))"

text \<open>
  An inbound message event: the text of the frame and what \<^verbatim>\<open>JSON.parse\<close> makes of
  it (\<open>None\<close> when it throws a SyntaxError).
\<close>

record message_event =
  ev_data :: string
  ev_parsed :: "jsval option"

text \<open>
  \<^verbatim>\<open>${message.data}\<close>: the property is read, then converted; either can throw.
\<close>

definition data_text :: "jsval \<Rightarrow> js_error + string" where
  "data_text message =
     (case get_prop message ''data'' of Inl e \<Rightarrow> Inl e | Inr d \<Rightarrow> js_to_string d)"

text \<open>
  The \<^verbatim>\<open>try\<close> block of \<^verbatim>\<open>websocket.onmessage\<close>. In the \<^verbatim>\<open>info\<close>,
  \<^verbatim>\<open>connected\<close> and \<^verbatim>\<open>error\<close> branches the argument of \<^verbatim>\<open>writeln\<close> is
  evaluated first: when the template literal throws, nothing is written and
  \<^verbatim>\<open>setIsConnected(false)\<close> is not reached.
\<close>

definition onmessage_try :: "session \<Rightarrow> message_event \<Rightarrow> state \<Rightarrow> js_error option \<times> state" where
  "onmessage_try s ev st =
     (case ev_parsed ev of
        None \<Rightarrow> (Some SyntaxError, st)
      | Some message \<Rightarrow>
          (let st1 = updateNetworkStats (length (ev_data ev)) False st in
           case get_prop message ''type'' of
             Inl e \<Rightarrow> (Some e, st1)
           | Inr ty \<Rightarrow>
               (if ty = JStr ''stdout'' \<or> ty = JStr ''stderr'' then
                  (case get_prop message ''data'' of
                     Inl e \<Rightarrow> (Some e, st1)
                   | Inr d \<Rightarrow> (None, upd_term (s_term s) (term_write d) st1))
                else if ty = JStr ''info'' then
                  (case data_text message of
                     Inl e \<Rightarrow> (Some e, st1)
                   | Inr text \<Rightarrow> (None, upd_term (s_term s) (term_writeln (blue text)) st1))
                else if ty = JStr ''connected'' then
                  (case data_text message of
                     Inl e \<Rightarrow> (Some e, st1)
                   | Inr text \<Rightarrow> (None, upd_term (s_term s) (term_writeln (green text)) st1))
                else if ty = JStr ''error'' then
                  (case data_text message of
                     Inl e \<Rightarrow> (Some e, st1)
                   | Inr text \<Rightarrow>
                       (None, (upd_term (s_term s) (term_writeln (red (''Error: '' @ text))) st1)
                              \<lparr>isConnected := False\<rparr>))
                else (None, st1))))"

text \<open>The handler with its \<^verbatim>\<open>catch\<close>, which logs the exception to the console.\<close>

definition onmessage :: "session \<Rightarrow> message_event \<Rightarrow> state \<Rightarrow> js_error option \<times> state" where
  "onmessage s ev st =
     (case onmessage_try s ev st of
        (Some err, st') \<Rightarrow> (None, st'\<lparr>console := console st' @ [ParseFailure err]\<rparr>)
      | (None, st') \<Rightarrow> (None, st'))"

definition onerror :: "session \<Rightarrow> state \<Rightarrow> state" where
  "onerror s st =
     (upd_term (s_term s) (term_writeln (red ''WebSocket connection error''))
        (st\<lparr>console := console st @ [SocketFailure]\<rparr>))\<lparr>isConnected := False\<rparr>"

definition onclose :: "session \<Rightarrow> nat \<Rightarrow> state \<Rightarrow> state" where
  "onclose s code st =
     (let st1 = st\<lparr>isConnected := False, networkSpeed := (0, 0)\<rparr>;
          st2 = (case speedUpdateTimerRef st1 of
                   None \<Rightarrow> st1
                 | Some i \<Rightarrow> (clearInterval i st1)\<lparr>speedUpdateTimerRef := None\<rparr>);
          st3 = (case pingTimerRef st2 of
                   None \<Rightarrow> st2
                 | Some i \<Rightarrow> (clearInterval i st2)\<lparr>pingTimerRef := None\<rparr>)
      in if code \<noteq> 1000
         then upd_term (s_term s) (term_writeln (red ''Connection closed unexpectedly'')) st3
         else upd_term (s_term s) (term_writeln (green ''Connection closed'')) st3)"

subsection \<open>The lifecycle effect and its cleanup\<close>

text \<open>
  The socket address, built from the page and from the values the effect rendered with.
\<close>

definition wsUrl :: "page \<Rightarrow> state \<Rightarrow> string" where
  "wsUrl pg st =
     (let protocol = (if location_protocol pg = ''https:'' then ''wss:'' else ''ws:'');
          host = (if is_dev pg then ''localhost:8080'' else location_host pg);
          currentCluster = (case current_cluster pg of None \<Rightarrow> ''null'' | Some c \<Rightarrow> c)
      in if p_type (props st) = Pod
         then protocol @ ''//'' @ host @ ''/api/v1/terminal/'' @ template (p_namespace (props st)) @
              ''/'' @ selectedPod st @ ''/ws?container='' @ selectedContainer st @
              ''&x-cluster-name='' @ currentCluster
         else protocol @ ''//'' @ host @ ''/api/v1/node-terminal/'' @ template (p_nodeName (props st)) @
              ''/ws?x-cluster-name='' @ currentCluster)"

text \<open>
  \<^verbatim>\<open>if (xtermRef.current) xtermRef.current.dispose()\<close> and
  \<^verbatim>\<open>if (wsRef.current) wsRef.current.close()\<close>, at the head of the effect.
\<close>

definition dispose_previous :: "state \<Rightarrow> state" where
  "dispose_previous st =
     (let st1 = (case xtermRef st of None \<Rightarrow> st | Some t \<Rightarrow> upd_term t term_dispose st)
      in case wsRef st1 of None \<Rightarrow> st1 | Some w \<Rightarrow> upd_ws w (ws_close None) st1)"

text \<open>
  The rest of the effect: a new emulator (fitted once), a new socket, the delayed first
  resize, the ResizeObserver, and the cleanup function handed back to React.
\<close>

definition connect :: "page \<Rightarrow> state \<Rightarrow> state" where
  "connect pg st =
     (let t = length (terminals st);
          w = length (sockets st);
          sid = length (sessions st);
          terminal = \<lparr>disposed = False,
                      cols = (case fit_size pg of None \<Rightarrow> 80 | Some (c, r) \<Rightarrow> c),
                      rows = (case fit_size pg of None \<Rightarrow> 24 | Some (c, r) \<Rightarrow> r),
                      term_out = []\<rparr>;
          websocket = \<lparr>ws_url = wsUrl pg st, readyState = CONNECTING, ws_sent = [], ws_closes = []\<rparr>
      in (setInterval (ResizeTimeout sid) 100
            (st\<lparr>terminals := terminals st @ [terminal],
                 xtermRef := Some t,
                 fitAddonRef := Some t,
                 isConnected := False,
                 sockets := sockets st @ [websocket],
                 wsRef := Some w\<rparr>))
         \<lparr>sessions := sessions st @
             [\<lparr>s_term = t, s_ws = w, s_type = p_type (props st), s_observing = True\<rparr>],
          cleanup := Some sid\<rparr>)"

definition lifecycle_effect :: "page \<Rightarrow> state \<Rightarrow> state" where
  "lifecycle_effect pg st =
     (if p_type (props st) = Pod \<and>
         (p_pods (props st) = None \<or> p_pods (props st) = Some []) \<and> selectedPod st = [] then st
      else if p_type (props st) = Pod \<and> selectedContainer st = [] then st
      else if p_type (props st) = Node \<and> or_else (p_nodeName (props st)) [] = [] then st
      else if \<not> terminalRef st then st
      else connect pg (dispose_previous st))"

text \<open>The function the effect returns, run by React before the next run and on unmount.\<close>

definition run_cleanup :: "state \<Rightarrow> state" where
  "run_cleanup st =
     (case cleanup st of
        None \<Rightarrow> st
      | Some sid \<Rightarrow>
          (let s = sessions st ! sid;
               st1 = st\<lparr>sessions := (sessions st)[sid := s\<lparr>s_observing := False\<rparr>], cleanup := None\<rparr>;
               st2 = upd_term (s_term s) term_dispose st1;
               st3 = upd_ws (s_ws s) (ws_close None) st2;
               st4 = clear_ref (speedUpdateTimerRef st3) st3
           in clear_ref (pingTimerRef st4) st4))"

definition rebuild :: "page \<Rightarrow> state \<Rightarrow> state" where
  "rebuild pg st = lifecycle_effect pg (run_cleanup st)"

subsection \<open>React's scheduling of the two effects\<close>

text \<open>
  React re-runs an effect after a render in which one of its dependencies differs from
  the last run, the cleanup of the previous run first. The lifecycle effect depends on
  \<^verbatim>\<open>[selectedPod, selectedContainer, namespace, type, updateNetworkStats]\<close>, the
  last of which never changes.
\<close>

type_synonym deps = "string \<times> string \<times> string option \<times> terminal_type"

definition lifecycle_deps :: "state \<Rightarrow> deps" where
  "lifecycle_deps st = (selectedPod st, selectedContainer st, p_namespace (props st), p_type (props st))"

definition commit_lifecycle :: "page \<Rightarrow> deps \<Rightarrow> state \<Rightarrow> state" where
  "commit_lifecycle pg old st = (if lifecycle_deps st \<noteq> old then rebuild pg st else st)"

definition initial :: "terminal_props \<Rightarrow> state" where
  "initial p =
     \<lparr>props = p, selectedPod = [], selectedContainer = [], isConnected = False,
      networkSpeed = (0, 0), terminalRef = True, xtermRef = None, fitAddonRef = None,
      wsRef = None,
      networkStatsRef = \<lparr>lastReset = 0, bytesReceived = 0, bytesSent = 0, lastUpdate = 0\<rparr>,
      speedUpdateTimerRef = None, pingTimerRef = None,
      terminals = [], sockets = [], timers = [], sessions = [], cleanup = None, console = []\<rparr>"

text \<open>
  The first commit runs both effects with the initial selection (both empty), then
  renders again with the selection the first effect has set.
\<close>

definition mount :: "page \<Rightarrow> terminal_props \<Rightarrow> state" where
  "mount pg p =
     (let st1 = lifecycle_effect pg (initial p)
      in commit_lifecycle pg (lifecycle_deps st1) (init_selection st1))"

text \<open>
  What can happen to a mounted component. \<open>Render p again\<close> is a render with props
  \<open>p\<close>; \<open>again\<close> says that \<^verbatim>\<open>pods\<close> or \<^verbatim>\<open>containers\<close> is a new array with
  equal contents, which re-runs the first effect all the same. A render that follows a
  state change of the component itself is no event of its own: it changes nothing
  unless it re-runs the first effect (an absent \<^verbatim>\<open>containers\<close> prop defaults to a
  new array at every render), and then it is \<open>Render\<close> with the props as they are and
  \<open>again\<close> set. The socket events carry the session whose handlers they reach;
  \<open>WsClosing\<close> is the closing handshake begun by the server, after which the socket
  reports \<^verbatim>\<open>CLOSING\<close> until its close event is delivered. A timer event carries
  \<^verbatim>\<open>Date.now()\<close>.
\<close>

datatype event =
    Render terminal_props bool
  | SelectPod "string option"
  | SelectContainer "string option"
  | Unmount
  | WsOpen nat int
  | WsMessage nat message_event
  | WsError nat
  | WsClosing nat
  | WsClose nat nat
  | Keystroke nat string
  | ElementResized nat
  | Refit nat nat nat
  | TimerFired nat int

definition init_deps_differ :: "terminal_props \<Rightarrow> terminal_props \<Rightarrow> bool" where
  "init_deps_differ p q =
     (p_podName p \<noteq> p_podName q \<or> p_pods p \<noteq> p_pods q \<or> p_containers p \<noteq> p_containers q)"

definition render :: "page \<Rightarrow> terminal_props \<Rightarrow> bool \<Rightarrow> state \<Rightarrow> state" where
  "render pg p again st =
     (let st1 = commit_lifecycle pg (lifecycle_deps st) (st\<lparr>props := p\<rparr>)
      in if again \<or> init_deps_differ (props st) p
         then commit_lifecycle pg (lifecycle_deps st1) (init_selection st1)
         else st1)"

definition fire_timer :: "nat \<Rightarrow> int \<Rightarrow> state \<Rightarrow> state" where
  "fire_timer i now st =
     (case t_kind (timers st ! i) of
        SpeedTimer \<Rightarrow> speed_tick now st
      | PingTimer w \<Rightarrow> snd (ping_tick w st)
      | ResizeTimeout sid \<Rightarrow> snd (handleTerminalResize (sessions st ! sid) (clearInterval i st)))"

text \<open>
  One event. An event the browser cannot deliver in the current state (an open event on
  a socket that is not connecting, a message or a closing handshake on a socket that is
  not open, a close event on a closed socket, input from a disposed emulator, a
  notification from a disconnected observer, a cleared timer, anything but socket and
  timer events after unmount) leaves the state as it is. An exception that escapes a callback is dropped by the event loop.
\<close>

definition step :: "page \<Rightarrow> event \<Rightarrow> state \<Rightarrow> state" where
  "step pg e st =
     (case e of
        Render p again \<Rightarrow> if terminalRef st then render pg p again st else st
      | SelectPod x \<Rightarrow>
          if terminalRef st then commit_lifecycle pg (lifecycle_deps st) (handlePodChange x st) else st
      | SelectContainer x \<Rightarrow>
          if terminalRef st then commit_lifecycle pg (lifecycle_deps st) (handleContainerChange x st)
          else st
      | Unmount \<Rightarrow> if terminalRef st then (run_cleanup st)\<lparr>terminalRef := False\<rparr> else st
      | WsOpen sid now \<Rightarrow>
          if sid < length (sessions st) \<and> readyState (sockets st ! s_ws (sessions st ! sid)) = CONNECTING
          then onopen (sessions st ! sid) now
                 (upd_ws (s_ws (sessions st ! sid)) (\<lambda>ws. ws\<lparr>readyState := OPEN\<rparr>) st)
          else st
      | WsMessage sid ev \<Rightarrow>
          if sid < length (sessions st) \<and> readyState (sockets st ! s_ws (sessions st ! sid)) = OPEN
          then snd (onmessage (sessions st ! sid) ev st)
          else st
      | WsError sid \<Rightarrow>
          if sid < length (sessions st) \<and> readyState (sockets st ! s_ws (sessions st ! sid)) \<noteq> CLOSED
          then onerror (sessions st ! sid) st
          else st
      | WsClosing sid \<Rightarrow>
          if sid < length (sessions st) \<and> readyState (sockets st ! s_ws (sessions st ! sid)) = OPEN
          then upd_ws (s_ws (sessions st ! sid)) (\<lambda>ws. ws\<lparr>readyState := CLOSING\<rparr>) st
          else st
      | WsClose sid code \<Rightarrow>
          if sid < length (sessions st) \<and> readyState (sockets st ! s_ws (sessions st ! sid)) \<noteq> CLOSED
          then onclose (sessions st ! sid) code
                 (upd_ws (s_ws (sessions st ! sid)) (\<lambda>ws. ws\<lparr>readyState := CLOSED\<rparr>) st)
          else st
      | Keystroke sid d \<Rightarrow>
          if sid < length (sessions st) \<and> \<not> disposed (terminals st ! s_term (sessions st ! sid))
          then snd (onData (sessions st ! sid) d st)
          else st
      | ElementResized sid \<Rightarrow>
          if sid < length (sessions st) \<and> s_observing (sessions st ! sid)
          then snd (handleTerminalResize (sessions st ! sid) st)
          else st
      | Refit t c r \<Rightarrow>
          if t < length (terminals st) \<and> \<not> disposed (terminals st ! t)
          then upd_term t (\<lambda>x. x\<lparr>cols := c, rows := r\<rparr>) st
          else st
      | TimerFired i now \<Rightarrow>
          if i < length (timers st) \<and> t_active (timers st ! i) then fire_timer i now st else st)"

definition run :: "page \<Rightarrow> event list \<Rightarrow> state \<Rightarrow> state" where
  "run pg es st = foldl (\<lambda>s e. step pg e s) st es"

subsection \<open>Streams of inbound frames\<close>

text \<open>The message handler of one session, run on a sequence of events in arrival order.\<close>

definition receive :: "session \<Rightarrow> message_event list \<Rightarrow> state \<Rightarrow> state" where
  "receive s evs st = foldl (\<lambda>st ev. snd (onmessage s ev st)) st evs"

text \<open>
  The payload of a frame whose \<^verbatim>\<open>type\<close> is \<^verbatim>\<open>stdout\<close> or \<^verbatim>\<open>stderr\<close>: its
  \<^verbatim>\<open>data\<close> property. Any other event has none.
\<close>

definition output_payload :: "message_event \<Rightarrow> jsval option" where
  "output_payload ev =
     (case ev_parsed ev of
        Some (JObj kvs) \<Rightarrow>
          (if map_of kvs ''type'' = Some (JStr ''stdout'') \<or> map_of kvs ''type'' = Some (JStr ''stderr'')
           then Some (case map_of kvs ''data'' of None \<Rightarrow> JUndefined | Some d \<Rightarrow> d)
           else None)
      | _ \<Rightarrow> None)"

definition is_output_frame :: "message_event \<Rightarrow> bool" where
  "is_output_frame ev = (output_payload ev \<noteq> None)"

fun is_write :: "term_op \<Rightarrow> bool" where
  "is_write (Write v) = True"
| "is_write (Writeln s) = False"

subsection \<open>A concrete session\<close>

text \<open>
  The scenario of the specification: a pod terminal in namespace \<^verbatim>\<open>default\<close> with pods
  \<^verbatim>\<open>web-1\<close> and \<^verbatim>\<open>web-2\<close> and container \<^verbatim>\<open>app\<close>, served over https, whose
  socket has opened at time 1000.
\<close>

definition scenario_page :: page where
  "scenario_page =
     \<lparr>location_protocol = ''https:'', location_host = ''kite.local'', is_dev = False,
      current_cluster = Some ''c1'', fit_size = Some (120, 40)\<rparr>"

definition scenario_props :: terminal_props where
  "scenario_props =
     \<lparr>p_type = Pod, p_namespace = Some ''default'', p_podName = None, p_nodeName = None,
      p_pods = Some [Some ''web-1'', Some ''web-2''], p_containers = [''app'']\<rparr>"

definition scenario_open :: state where
  "scenario_open = run scenario_page [WsOpen 0 1000] (mount scenario_page scenario_props)"

definition session0 :: session where
  "session0 = \<lparr>s_term = 0, s_ws = 0, s_type = Pod, s_observing = True\<rparr>"

text \<open>A frame as the server writes it, with what \<^verbatim>\<open>JSON.parse\<close> returns for it.\<close>

definition server_frame :: "string \<Rightarrow> string \<Rightarrow> message_event" where
  "server_frame ty d =
     \<lparr>ev_data = [CHR ''{'', CHR 0x22] @ ''type'' @ [CHR 0x22, CHR '':''] @ json_string ty @
                 [CHR '','', CHR 0x22] @ ''data'' @ [CHR 0x22, CHR '':''] @ json_string d @ [CHR ''}''],
      ev_parsed = Some (JObj [(''type'', JStr ty), (''data'', JStr d)])\<rparr>"

definition null_frame :: message_event where
  "null_frame = \<lparr>ev_data = ''null'', ev_parsed = Some JNull\<rparr>"

text \<open>The frame \<^verbatim>\<open>{"type":"error","data":{"toString":1}}\<close>.\<close>

definition tostring_frame :: message_event where
  "tostring_frame =
     \<lparr>ev_data = [CHR ''{'', CHR 0x22] @ ''type'' @ [CHR 0x22, CHR '':''] @ json_string ''error'' @
                 [CHR '','', CHR 0x22] @ ''data'' @ [CHR 0x22, CHR '':'', CHR ''{'', CHR 0x22] @
                 ''toString'' @ [CHR 0x22, CHR '':'', CHR ''1'', CHR ''}'', CHR ''}''],
      ev_parsed = Some (JObj [(''type'', JStr ''error''),
                              (''data'', JObj [(''toString'', JNum ''1'')])])\<rparr>"

text \<open>The values of \<^verbatim>\<open>message.type\<close> that the \<^verbatim>\<open>switch\<close> has a case for.\<close>

definition known_type :: "jsval \<Rightarrow> bool" where
  "known_type ty =
     (ty = JStr ''stdout'' \<or> ty = JStr ''stderr'' \<or> ty = JStr ''info'' \<or>
      ty = JStr ''connected'' \<or> ty = JStr ''error'' \<or> ty = JStr ''pong'')"

subsection \<open>Live objects and the invariant of the session\<close>

text \<open>
  A socket is live while it is connecting or open, an emulator until it is disposed; an
  interval timer runs until it is cleared. The counts are what the lifecycle is about.
\<close>

definition ws_live :: "websocket \<Rightarrow> bool" where
  "ws_live ws = (readyState ws = CONNECTING \<or> readyState ws = OPEN)"

definition term_live :: "xterm \<Rightarrow> bool" where
  "term_live x = (\<not> disposed x)"

definition speed_active :: "timer \<Rightarrow> bool" where
  "speed_active t = (t_active t \<and> t_kind t = SpeedTimer)"

definition ping_active :: "timer \<Rightarrow> bool" where
  "ping_active t = (t_active t \<and> (case t_kind t of PingTimer w \<Rightarrow> True | _ \<Rightarrow> False))"

definition live_sockets :: "state \<Rightarrow> nat" where
  "live_sockets st = length (filter ws_live (sockets st))"

definition live_terminals :: "state \<Rightarrow> nat" where
  "live_terminals st = length (filter term_live (terminals st))"

definition running_intervals :: "state \<Rightarrow> nat" where
  "running_intervals st = length (filter (\<lambda>t. speed_active t \<or> ping_active t) (timers st))"

text \<open>
  \<open>only_at P xs r\<close>: no element of the store \<open>xs\<close> satisfies \<open>P\<close>, but possibly the
  one the ref \<open>r\<close> points to.
\<close>

definition only_at :: "('a \<Rightarrow> bool) \<Rightarrow> 'a list \<Rightarrow> nat option \<Rightarrow> bool" where
  "only_at P xs r = (\<forall>i<length xs. P (xs ! i) \<longrightarrow> r = Some i)"

definition none_of :: "('a \<Rightarrow> bool) \<Rightarrow> 'a list \<Rightarrow> bool" where
  "none_of P xs = list_all (\<lambda>x. \<not> P x) xs"

text \<open>
  The invariant: a live socket, a live emulator and a running interval timer are each
  the one its ref points to; every session's captures exist; and either a cleanup
  function is pending, which captured what the refs point to, or nothing is live.
\<close>

definition sessions_valid :: "state \<Rightarrow> bool" where
  "sessions_valid st =
     list_all (\<lambda>s. s_ws s < length (sockets st) \<and> s_term s < length (terminals st)) (sessions st)"

definition owned :: "state \<Rightarrow> bool" where
  "owned st =
     (case cleanup st of
        None \<Rightarrow> none_of ws_live (sockets st) \<and> none_of term_live (terminals st) \<and>
                none_of speed_active (timers st) \<and> none_of ping_active (timers st)
      | Some sid \<Rightarrow> sid < length (sessions st) \<and> wsRef st = Some (s_ws (sessions st ! sid)) \<and>
                    xtermRef st = Some (s_term (sessions st ! sid)))"

definition session_inv :: "state \<Rightarrow> bool" where
  "session_inv st =
     (only_at ws_live (sockets st) (wsRef st) \<and> only_at term_live (terminals st) (xtermRef st) \<and>
      only_at speed_active (timers st) (speedUpdateTimerRef st) \<and>
      only_at ping_active (timers st) (pingTimerRef st) \<and> sessions_valid st \<and> owned st)"

text \<open>
  Two states are related by \<open>quiet\<close> when they agree on refs, sessions and timers, and
  on which sockets are in which state and which emulators are disposed.
\<close>

definition quiet :: "state \<Rightarrow> state \<Rightarrow> bool" where
  "quiet st st' =
     (wsRef st' = wsRef st \<and> xtermRef st' = xtermRef st \<and>
      speedUpdateTimerRef st' = speedUpdateTimerRef st \<and> pingTimerRef st' = pingTimerRef st \<and>
      cleanup st' = cleanup st \<and> sessions st' = sessions st \<and> timers st' = timers st \<and>
      map readyState (sockets st') = map readyState (sockets st) \<and>
      map disposed (terminals st') = map disposed (terminals st))"

definition deactivate :: "nat option \<Rightarrow> timer list \<Rightarrow> timer list" where
  "deactivate r ts = (case r of None \<Rightarrow> ts | Some i \<Rightarrow> ts[i := (ts ! i)\<lparr>t_active := False\<rparr>])"

text \<open>
  A state is torn down when nothing is live in it. \<open>rebuild_ordered\<close> says of a state
  in which React re-runs the lifecycle effect: the cleanup alone tears everything
  down, and so does the head of the effect after it; the effect then either builds
  from that state or stops at a guard; the session captured by the cleanup has its
  emulator disposed and has one more \<^verbatim>\<open>close()\<close> call, without a code, on its
  socket; and at most one socket and one emulator are live afterwards.
\<close>

definition torn_down :: "state \<Rightarrow> bool" where
  "torn_down st = (live_sockets st = 0 \<and> live_terminals st = 0 \<and> running_intervals st = 0)"

definition rebuild_ordered :: "page \<Rightarrow> state \<Rightarrow> bool" where
  "rebuild_ordered pg st =
     (torn_down (run_cleanup st) \<and> torn_down (dispose_previous (run_cleanup st)) \<and>
      (rebuild pg st = connect pg (dispose_previous (run_cleanup st)) \<or> rebuild pg st = run_cleanup st) \<and>
      live_sockets (rebuild pg st) \<le> 1 \<and> live_terminals (rebuild pg st) \<le> 1 \<and>
      (case cleanup st of
         None \<Rightarrow> True
       | Some sid \<Rightarrow>
           disposed (terminals (run_cleanup st) ! s_term (sessions st ! sid)) \<and>
           ws_closes (sockets (run_cleanup st) ! s_ws (sessions st ! sid)) =
             ws_closes (sockets st ! s_ws (sessions st ! sid)) @ [None]))"




text \<open>The concrete session after a keystroke and one sampling tick.\<close>

definition scenario_busy :: state where
  "scenario_busy =
     run scenario_page [WsOpen 0 1000, Keystroke 0 ''ls'', TimerFired 1 2000]
       (mount scenario_page scenario_props)"

section \<open>Properties\<close>

subsection \<open>What the store updates leave alone\<close>

lemma upd_term_proj [simp]:
  "sockets (upd_term t f st) = sockets st"
  "timers (upd_term t f st) = timers st"
  "terminals (upd_term t f st) = (terminals st)[t := f (terminals st ! t)]"
  "isConnected (upd_term t f st) = isConnected st"
  "networkSpeed (upd_term t f st) = networkSpeed st"
  "networkStatsRef (upd_term t f st) = networkStatsRef st"
  "speedUpdateTimerRef (upd_term t f st) = speedUpdateTimerRef st"
  "pingTimerRef (upd_term t f st) = pingTimerRef st"
  "wsRef (upd_term t f st) = wsRef st"
  "xtermRef (upd_term t f st) = xtermRef st"
  "fitAddonRef (upd_term t f st) = fitAddonRef st"
  "cleanup (upd_term t f st) = cleanup st"
  "sessions (upd_term t f st) = sessions st"
  "console (upd_term t f st) = console st"
  "props (upd_term t f st) = props st"
  "selectedPod (upd_term t f st) = selectedPod st"
  "selectedContainer (upd_term t f st) = selectedContainer st"
  "terminalRef (upd_term t f st) = terminalRef st"
  by (simp_all add: upd_term_def)

lemma updateNetworkStats_proj [simp]:
  "sockets (updateNetworkStats n b st) = sockets st"
  "timers (updateNetworkStats n b st) = timers st"
  "terminals (updateNetworkStats n b st) = terminals st"
  "isConnected (updateNetworkStats n b st) = isConnected st"
  "networkSpeed (updateNetworkStats n b st) = networkSpeed st"
  "speedUpdateTimerRef (updateNetworkStats n b st) = speedUpdateTimerRef st"
  "pingTimerRef (updateNetworkStats n b st) = pingTimerRef st"
  "wsRef (updateNetworkStats n b st) = wsRef st"
  "xtermRef (updateNetworkStats n b st) = xtermRef st"
  "fitAddonRef (updateNetworkStats n b st) = fitAddonRef st"
  "cleanup (updateNetworkStats n b st) = cleanup st"
  "sessions (updateNetworkStats n b st) = sessions st"
  "console (updateNetworkStats n b st) = console st"
  "props (updateNetworkStats n b st) = props st"
  "selectedPod (updateNetworkStats n b st) = selectedPod st"
  "selectedContainer (updateNetworkStats n b st) = selectedContainer st"
  "terminalRef (updateNetworkStats n b st) = terminalRef st"
  by (simp_all add: updateNetworkStats_def Let_def)

lemma setInterval_proj [simp]:
  "timers (setInterval k ms st) = timers st @ [\<lparr>t_kind = k, t_period = ms, t_active = True\<rparr>]"
  by (simp add: setInterval_def)

lemma clearInterval_proj [simp]:
  "timers (clearInterval i st) = (timers st)[i := (timers st ! i)\<lparr>t_active := False\<rparr>]"
  by (simp add: clearInterval_def)

subsection \<open>The concrete session, evaluated\<close>

lemma scenario_mounted:
  "mount scenario_page scenario_props =
     \<lparr>props = scenario_props, selectedPod = ''web-1'', selectedContainer = ''app'',
      isConnected = False, networkSpeed = (0, 0), terminalRef = True,
      xtermRef = Some 0, fitAddonRef = Some 0, wsRef = Some 0,
      networkStatsRef = \<lparr>lastReset = 0, bytesReceived = 0, bytesSent = 0, lastUpdate = 0\<rparr>,
      speedUpdateTimerRef = None, pingTimerRef = None,
      terminals = [\<lparr>disposed = False, cols = 120, rows = 40, term_out = []\<rparr>],
      sockets = [\<lparr>ws_url = ''wss://kite.local/api/v1/terminal/default/web-1/ws?container=app&x-cluster-name=c1'',
                  readyState = CONNECTING, ws_sent = [], ws_closes = []\<rparr>],
      timers = [\<lparr>t_kind = ResizeTimeout 0, t_period = 100, t_active = True\<rparr>],
      sessions = [session0], cleanup = Some 0, console = []\<rparr>"
  by (simp add: mount_def initial_def lifecycle_effect_def init_selection_def commit_lifecycle_def
        lifecycle_deps_def rebuild_def run_cleanup_def connect_def dispose_previous_def wsUrl_def
        setInterval_def or_else_def first_pod_name_def template_def scenario_props_def
        scenario_page_def session0_def Let_def)

lemma scenario_opened:
  "scenario_open =
     \<lparr>props = scenario_props, selectedPod = ''web-1'', selectedContainer = ''app'',
      isConnected = True, networkSpeed = (0, 0), terminalRef = True,
      xtermRef = Some 0, fitAddonRef = Some 0, wsRef = Some 0,
      networkStatsRef = \<lparr>lastReset = 1000, bytesReceived = 0, bytesSent = 0, lastUpdate = 1000\<rparr>,
      speedUpdateTimerRef = Some 1, pingTimerRef = Some 2,
      terminals = [\<lparr>disposed = False, cols = 120, rows = 40,
                    term_out = [Writeln (green ''Connected to pod terminal!''), Writeln []]\<rparr>],
      sockets = [\<lparr>ws_url = ''wss://kite.local/api/v1/terminal/default/web-1/ws?container=app&x-cluster-name=c1'',
                  readyState = OPEN, ws_sent = [], ws_closes = []\<rparr>],
      timers = [\<lparr>t_kind = ResizeTimeout 0, t_period = 100, t_active = True\<rparr>,
                \<lparr>t_kind = SpeedTimer, t_period = 500, t_active = True\<rparr>,
                \<lparr>t_kind = PingTimer 0, t_period = 30000, t_active = True\<rparr>],
      sessions = [session0], cleanup = Some 0, console = []\<rparr>"
  unfolding scenario_open_def scenario_mounted
  by (simp add: run_def step_def onopen_def upd_ws_def upd_term_def clear_ref_def setInterval_def
        term_writeln_def type_name_def session0_def Let_def)

lemma scenario_terminal: "s_term session0 < length (terminals scenario_open)"
  by (simp add: scenario_opened session0_def)

subsection \<open>The message handler\<close>

lemma onmessage_no_throw: "fst (onmessage s ev st) = None"
  by (simp add: onmessage_def split: prod.splits option.splits)

lemma onmessage_terminals_length:
  "length (terminals (snd (onmessage s ev st))) = length (terminals st)"
  by (auto simp: onmessage_def onmessage_try_def Let_def
        split: prod.splits option.splits sum.splits if_splits)


lemma onmessage_writes:
  assumes "s_term s < length (terminals st)"
  shows "filter is_write (term_out (terminals (snd (onmessage s ev st)) ! s_term s)) =
         filter is_write (term_out (terminals st ! s_term s)) @
           (case output_payload ev of None \<Rightarrow> [] | Some d \<Rightarrow> [Write d])"
proof (cases "ev_parsed ev")
  case None
  then show ?thesis by (simp add: onmessage_def onmessage_try_def output_payload_def)
next
  case (Some m)
  show ?thesis
  proof (cases m)
    case (JObj kvs)
    with Some assms show ?thesis
      by (auto simp: onmessage_def onmessage_try_def output_payload_def Let_def term_write_def
            term_writeln_def split: option.splits sum.splits)
  qed (use Some assms in \<open>simp_all add: onmessage_def onmessage_try_def output_payload_def Let_def\<close>)
qed

lemma onmessage_output_frame:
  assumes "s_term s < length (terminals st)" and "output_payload ev = Some d"
  shows "term_out (terminals (snd (onmessage s ev st)) ! s_term s) =
         term_out (terminals st ! s_term s) @ [Write d]"
proof -
  from assms(2) obtain kvs where m: "ev_parsed ev = Some (JObj kvs)"
    by (auto simp: output_payload_def split: option.splits jsval.splits)
  with assms show ?thesis
    by (auto simp: onmessage_def onmessage_try_def output_payload_def Let_def term_write_def
          split: option.splits if_splits)
qed

lemma receive_snoc: "receive s (evs @ [ev]) st = snd (onmessage s ev (receive s evs st))"
  by (simp add: receive_def)

lemma receive_terminals_length: "length (terminals (receive s evs st)) = length (terminals st)"
  by (induction evs rule: rev_induct) (simp_all add: receive_def onmessage_terminals_length)

text \<open>
  Claim C2. Whatever frames arrive, the \<^verbatim>\<open>write\<close> calls made on the session's
  emulator are exactly the payloads of the \<^verbatim>\<open>stdout\<close> and \<^verbatim>\<open>stderr\<close> frames, one
  call per frame, in arrival order; no other frame adds to them. When every frame is
  such a frame, nothing else at all is written.
\<close>

theorem C2_output_stream:
  assumes "s_term s < length (terminals st)"
  shows "filter is_write (term_out (terminals (receive s evs st) ! s_term s)) =
           filter is_write (term_out (terminals st ! s_term s)) @
             map Write (List.map_filter output_payload evs) \<and>
         (list_all is_output_frame evs \<longrightarrow>
            term_out (terminals (receive s evs st) ! s_term s) =
              term_out (terminals st ! s_term s) @ map Write (List.map_filter output_payload evs))"
proof (induction evs rule: rev_induct)
  case Nil
  show ?case by (simp add: receive_def List.map_filter_simps)
next
  case (snoc ev evs)
  let ?mid = "receive s evs st"
  have len: "s_term s < length (terminals ?mid)"
    using assms by (simp add: receive_terminals_length)
  have mf: "List.map_filter output_payload (evs @ [ev]) =
              List.map_filter output_payload evs @
                (case output_payload ev of None \<Rightarrow> [] | Some d \<Rightarrow> [d])"
    by (simp add: List.map_filter_def split: option.splits)
  have one: "filter is_write (term_out (terminals (receive s (evs @ [ev]) st) ! s_term s)) =
               filter is_write (term_out (terminals st ! s_term s)) @
                 map Write (List.map_filter output_payload (evs @ [ev]))"
    using snoc onmessage_writes[OF len, of ev]
    by (simp add: receive_snoc mf split: option.splits)
  have two: "term_out (terminals (receive s (evs @ [ev]) st) ! s_term s) =
               term_out (terminals st ! s_term s) @
                 map Write (List.map_filter output_payload (evs @ [ev]))"
    if all: "list_all is_output_frame (evs @ [ev])"
  proof -
    from all obtain d where d: "output_payload ev = Some d"
      by (auto simp: is_output_frame_def)
    from all snoc have "term_out (terminals ?mid ! s_term s) =
        term_out (terminals st ! s_term s) @ map Write (List.map_filter output_payload evs)"
      by simp
    with onmessage_output_frame[OF len d] show ?thesis
      by (simp add: receive_snoc mf d)
  qed
  from one two show ?case by blast
qed

theorem C2_output_stream_witness:
  "filter is_write (term_out (terminals (receive session0
       [server_frame ''stdout'' ''$ '', server_frame ''info'' ''hi'', server_frame ''stderr'' ''oops'']
       scenario_open) ! s_term session0)) =
     filter is_write (term_out (terminals scenario_open ! s_term session0)) @
       [Write (JStr ''$ ''), Write (JStr ''oops'')] \<and>
   term_out (terminals (receive session0
       [server_frame ''stdout'' ''$ '', server_frame ''stderr'' ''oops''] scenario_open) ! s_term session0) =
     term_out (terminals scenario_open ! s_term session0) @
       [Write (JStr ''$ ''), Write (JStr ''oops'')]"
proof -
  have a: "list_all is_output_frame [server_frame ''stdout'' ''$ '', server_frame ''stderr'' ''oops'']"
    by (simp add: is_output_frame_def output_payload_def server_frame_def)
  have p3: "List.map_filter output_payload
        [server_frame ''stdout'' ''$ '', server_frame ''info'' ''hi'', server_frame ''stderr'' ''oops''] =
      [JStr ''$ '', JStr ''oops'']"
    by (simp add: List.map_filter_simps output_payload_def server_frame_def)
  have p2: "List.map_filter output_payload
        [server_frame ''stdout'' ''$ '', server_frame ''stderr'' ''oops''] =
      [JStr ''$ '', JStr ''oops'']"
    by (simp add: List.map_filter_simps output_payload_def server_frame_def)
  from C2_output_stream[OF scenario_terminal,
      of "[server_frame ''stdout'' ''$ '', server_frame ''info'' ''hi'', server_frame ''stderr'' ''oops'']"]
    C2_output_stream[OF scenario_terminal,
      of "[server_frame ''stdout'' ''$ '', server_frame ''stderr'' ''oops'']"] a
  show ?thesis unfolding p3 p2 by simp
qed

text \<open>
  Claim C3, as amended. No exception escapes the message handler. When
  \<^verbatim>\<open>JSON.parse\<close> throws, the failure is logged and nothing else changes: connection
  flag, traffic counters and emulator are as before. A payload that parses to
  \<^verbatim>\<open>null\<close> is logged as a parse failure too, but its size has been added to
  \<^verbatim>\<open>bytesReceived\<close> by then. Any other payload that parses and has no known
  \<^verbatim>\<open>type\<close> (a number, a boolean, a string, an array, a record with another type or
  none) is not logged: its size is added to \<^verbatim>\<open>bytesReceived\<close> and nothing else
  changes. A record of type \<^verbatim>\<open>info\<close>, \<^verbatim>\<open>connected\<close> or \<^verbatim>\<open>error\<close> whose data
  cannot be converted to text is logged as a parse failure, again after its size has
  been counted, and changes nothing else.
\<close>

theorem C3_parse_failure:
  "fst (onmessage s ev st) = None \<and>
   (ev_parsed ev = None \<longrightarrow>
      onmessage s ev st = (None, st\<lparr>console := console st @ [ParseFailure SyntaxError]\<rparr>)) \<and>
   (ev_parsed ev = Some JNull \<longrightarrow>
      onmessage s ev st =
        (None, (updateNetworkStats (length (ev_data ev)) False st)
                 \<lparr>console := console st @ [ParseFailure TypeError]\<rparr>)) \<and>
   (ev_parsed ev = Some m \<and> get_prop m ''type'' = Inr ty \<and> \<not> known_type ty \<longrightarrow>
      onmessage s ev st = (None, updateNetworkStats (length (ev_data ev)) False st)) \<and>
   (ev_parsed ev = Some m \<and> get_prop m ''type'' = Inr ty \<and>
    (ty = JStr ''info'' \<or> ty = JStr ''connected'' \<or> ty = JStr ''error'') \<and> data_text m = Inl e \<longrightarrow>
      onmessage s ev st =
        (None, (updateNetworkStats (length (ev_data ev)) False st)
                 \<lparr>console := console st @ [ParseFailure e]\<rparr>))"
  by (simp add: onmessage_no_throw)
     (auto simp: onmessage_def onmessage_try_def known_type_def Let_def)

theorem C3_parse_failure_witness:
  "onmessage session0 \<lparr>ev_data = ''$ ls'', ev_parsed = None\<rparr> scenario_open =
     (None, scenario_open\<lparr>console := console scenario_open @ [ParseFailure SyntaxError]\<rparr>) \<and>
   onmessage session0 null_frame scenario_open =
     (None, (updateNetworkStats (length ''null'') False scenario_open)
              \<lparr>console := console scenario_open @ [ParseFailure TypeError]\<rparr>) \<and>
   onmessage session0 \<lparr>ev_data = ''42'', ev_parsed = Some (JNum ''42'')\<rparr> scenario_open =
     (None, updateNetworkStats (length ''42'') False scenario_open) \<and>
   onmessage session0 \<lparr>ev_data = ''[]'', ev_parsed = Some (JArr [])\<rparr> scenario_open =
     (None, updateNetworkStats (length ''[]'') False scenario_open) \<and>
   onmessage session0 (server_frame ''bogus'' ''x'') scenario_open =
     (None, updateNetworkStats (length (ev_data (server_frame ''bogus'' ''x''))) False scenario_open) \<and>
   onmessage session0 tostring_frame scenario_open =
     (None, (updateNetworkStats (length (ev_data tostring_frame)) False scenario_open)
              \<lparr>console := console scenario_open @ [ParseFailure TypeError]\<rparr>)"
proof -
  have d: "ev_parsed tostring_frame =
             Some (JObj [(''type'', JStr ''error''), (''data'', JObj [(''toString'', JNum ''1'')])]) \<and>
           get_prop (JObj [(''type'', JStr ''error''), (''data'', JObj [(''toString'', JNum ''1'')])])
             ''type'' = Inr (JStr ''error'') \<and>
           data_text (JObj [(''type'', JStr ''error''), (''data'', JObj [(''toString'', JNum ''1'')])]) =
             Inl TypeError"
    by (simp add: tostring_frame_def data_text_def)
  have a: "get_prop (JNum ''42'') ''type'' = Inr JUndefined \<and> \<not> known_type JUndefined"
    by (simp add: known_type_def)
  have b: "get_prop (JArr []) ''type'' = Inr JUndefined"
    by simp
  have c: "ev_parsed (server_frame ''bogus'' ''x'') =
             Some (JObj [(''type'', JStr ''bogus''), (''data'', JStr ''x'')]) \<and>
           get_prop (JObj [(''type'', JStr ''bogus''), (''data'', JStr ''x'')]) ''type'' =
             Inr (JStr ''bogus'') \<and> \<not> known_type (JStr ''bogus'')"
    by (simp add: server_frame_def known_type_def)
  from C3_parse_failure[of session0 "\<lparr>ev_data = ''$ ls'', ev_parsed = None\<rparr>" scenario_open]
    C3_parse_failure[of session0 null_frame scenario_open]
    C3_parse_failure[of session0 "\<lparr>ev_data = ''42'', ev_parsed = Some (JNum ''42'')\<rparr>" scenario_open
      "JNum ''42''" JUndefined]
    C3_parse_failure[of session0 "\<lparr>ev_data = ''[]'', ev_parsed = Some (JArr [])\<rparr>" scenario_open
      "JArr []" JUndefined]
    C3_parse_failure[of session0 "server_frame ''bogus'' ''x''" scenario_open
      "JObj [(''type'', JStr ''bogus''), (''data'', JStr ''x'')]" "JStr ''bogus''"]
    C3_parse_failure[of session0 tostring_frame scenario_open
      "JObj [(''type'', JStr ''error''), (''data'', JObj [(''toString'', JNum ''1'')])]"
      "JStr ''error''" TypeError]
    a b c d
  show ?thesis by (simp add: null_frame_def)
qed

text \<open>
  The claim as stated fails on the payload \<^verbatim>\<open>null\<close>: the handler logs a parse
  failure, and the received-bytes counter has moved from 0 to 4.
\<close>

theorem C3_counterexample:
  "fst (onmessage session0 null_frame scenario_open) = None \<and>
   console (snd (onmessage session0 null_frame scenario_open)) =
     console scenario_open @ [ParseFailure TypeError] \<and>
   bytesReceived (networkStatsRef scenario_open) = 0 \<and>
   bytesReceived (networkStatsRef (snd (onmessage session0 null_frame scenario_open))) = 4"
  by (simp add: scenario_opened onmessage_def onmessage_try_def null_frame_def updateNetworkStats_def
        Let_def)

subsection \<open>The senders\<close>

text \<open>
  Claim C4. None of the three senders (keystrokes, resize, keepalive) lets an exception
  escape, and while the socket's \<^verbatim>\<open>readyState\<close> is not \<^verbatim>\<open>OPEN\<close> each of them
  returns with the state untouched: nothing is sent and nothing is counted.
\<close>

theorem C4_no_send_unless_open:
  "fst (onData s d st) = None \<and> fst (handleTerminalResize s st) = None \<and>
   fst (ping_tick (s_ws s) st) = None \<and>
   (readyState (sockets st ! s_ws s) \<noteq> OPEN \<longrightarrow>
      onData s d st = (None, st) \<and> handleTerminalResize s st = (None, st) \<and>
      ping_tick (s_ws s) st = (None, st))"
  by (simp add: onData_def handleTerminalResize_def ping_tick_def send_frame_def ws_send_def)

theorem C4_no_send_unless_open_witness:
  "readyState (sockets (mount scenario_page scenario_props) ! s_ws session0) = CONNECTING \<and>
   onData session0 ''ls'' (mount scenario_page scenario_props) = (None, mount scenario_page scenario_props) \<and>
   handleTerminalResize session0 (mount scenario_page scenario_props) =
     (None, mount scenario_page scenario_props) \<and>
   ping_tick (s_ws session0) (mount scenario_page scenario_props) =
     (None, mount scenario_page scenario_props)"
proof -
  have h: "readyState (sockets (mount scenario_page scenario_props) ! s_ws session0) = CONNECTING"
    by (simp add: scenario_mounted session0_def)
  with C4_no_send_unless_open[of session0 "''ls''" "mount scenario_page scenario_props"]
  show ?thesis by simp
qed

text \<open>
  Claim C7, as amended. Every run of the resize callback while the fit addon is set and
  the socket is \<^verbatim>\<open>OPEN\<close> sends exactly one resize frame with the emulator's current
  columns and rows, and leaves the emulator alone; while the socket is not \<^verbatim>\<open>OPEN\<close>
  it sends nothing. The callback neither compares with the last size sent nor delays.
\<close>

theorem C7_resize_each_call:
  "(fitAddonRef st \<noteq> None \<and> s_ws s < length (sockets st) \<and> readyState (sockets st ! s_ws s) = OPEN \<longrightarrow>
      fst (handleTerminalResize s st) = None \<and>
      ws_sent (sockets (snd (handleTerminalResize s st)) ! s_ws s) =
        ws_sent (sockets st ! s_ws s) @
          [resize_message (cols (terminals st ! s_term s)) (rows (terminals st ! s_term s))] \<and>
      terminals (snd (handleTerminalResize s st)) = terminals st) \<and>
   (readyState (sockets st ! s_ws s) \<noteq> OPEN \<longrightarrow> handleTerminalResize s st = (None, st))"
  by (simp add: handleTerminalResize_def send_frame_def ws_send_def)

theorem C7_resize_each_call_witness:
  "ws_sent (sockets (snd (handleTerminalResize session0 scenario_open)) ! s_ws session0) =
     ws_sent (sockets scenario_open ! s_ws session0) @ [resize_message 120 40] \<and>
   handleTerminalResize session0 (mount scenario_page scenario_props) =
     (None, mount scenario_page scenario_props)"
proof -
  have h1: "fitAddonRef scenario_open \<noteq> None \<and> s_ws session0 < length (sockets scenario_open) \<and>
            readyState (sockets scenario_open ! s_ws session0) = OPEN"
    by (simp add: scenario_opened session0_def)
  have g: "cols (terminals scenario_open ! s_term session0) = 120 \<and>
           rows (terminals scenario_open ! s_term session0) = 40"
    by (simp add: scenario_opened session0_def)
  have h2: "readyState (sockets (mount scenario_page scenario_props) ! s_ws session0) \<noteq> OPEN"
    by (simp add: scenario_mounted session0_def)
  from C7_resize_each_call[of scenario_open session0] h1 g
    C7_resize_each_call[of "mount scenario_page scenario_props" session0] h2
  show ?thesis by simp
qed

text \<open>
  The claim as stated fails both ways. Two notifications of the ResizeObserver with the
  size unchanged send the same frame twice; and a refit that changes the size to
  100 by 30 sends no frame at all, since nothing listens to the emulator's own resize.
\<close>

theorem C7_counterexample:
  "ws_sent (sockets (run scenario_page [ElementResized 0, ElementResized 0] scenario_open) ! 0) =
     [resize_message 120 40, resize_message 120 40] \<and>
   cols (terminals (run scenario_page [Refit 0 100 30] scenario_open) ! 0) = 100 \<and>
   ws_sent (sockets (run scenario_page [Refit 0 100 30] scenario_open) ! 0) = []"
  by (simp add: scenario_opened run_def step_def handleTerminalResize_def send_frame_def ws_send_def
        updateNetworkStats_def upd_term_def session0_def Let_def)

subsection \<open>Close and error\<close>

text \<open>
  Claim C6. The close handler writes exactly one line on the session's emulator: the
  red \<^verbatim>\<open>Connection closed unexpectedly\<close> when the code is not 1000, the green
  \<^verbatim>\<open>Connection closed\<close> when it is; no other emulator is touched.
\<close>

theorem C6_close_line:
  assumes "s_term s < length (terminals st)"
  shows "term_out (terminals (onclose s code st) ! s_term s) =
           term_out (terminals st ! s_term s) @
             [Writeln (if code \<noteq> 1000 then red ''Connection closed unexpectedly''
                       else green ''Connection closed'')] \<and>
         (\<forall>t. t \<noteq> s_term s \<longrightarrow> terminals (onclose s code st) ! t = terminals st ! t)"
  using assms
  by (simp add: onclose_def Let_def term_writeln_def clearInterval_def split: option.splits)

theorem C6_close_line_witness:
  "term_out (terminals (onclose session0 1006 scenario_open) ! s_term session0) =
     term_out (terminals scenario_open ! s_term session0) @
       [Writeln (red ''Connection closed unexpectedly'')] \<and>
   term_out (terminals (onclose session0 1000 scenario_open) ! s_term session0) =
     term_out (terminals scenario_open ! s_term session0) @ [Writeln (green ''Connection closed'')]"
  using C6_close_line[OF scenario_terminal, of 1006] C6_close_line[OF scenario_terminal, of 1000]
  by simp




subsection \<open>Stores with at most one marked element\<close>

lemma only_at_update:
  "only_at P xs r \<Longrightarrow> (P y \<Longrightarrow> P (xs ! i)) \<Longrightarrow> only_at P (xs[i := y]) r"
  unfolding only_at_def by (metis length_list_update nth_list_update_eq nth_list_update_neq)

lemma only_at_update_not: "only_at P xs r \<Longrightarrow> \<not> P y \<Longrightarrow> only_at P (xs[i := y]) r"
  by (rule only_at_update) simp_all

lemma only_at_none: "none_of P xs \<Longrightarrow> only_at P xs r"
  by (simp add: only_at_def none_of_def list_all_length)

lemma only_at_None: "only_at P xs None = none_of P xs"
  by (auto simp: only_at_def none_of_def list_all_length)

lemma only_at_snoc_new: "none_of P xs \<Longrightarrow> only_at P (xs @ [y]) (Some (length xs))"
  by (auto simp: only_at_def none_of_def list_all_length nth_append less_Suc_eq)

lemma only_at_snoc_old: "only_at P xs r \<Longrightarrow> \<not> P y \<Longrightarrow> only_at P (xs @ [y]) r"
  by (auto simp: only_at_def nth_append less_Suc_eq)

lemma none_of_update: "none_of P xs \<Longrightarrow> \<not> P y \<Longrightarrow> none_of P (xs[i := y])"
  unfolding none_of_def list_all_length
  by (metis length_list_update nth_list_update_eq nth_list_update_neq)

lemma only_at_cleared:
  "only_at P xs (Some i) \<Longrightarrow> \<not> P y \<Longrightarrow> none_of P (xs[i := y])"
  unfolding only_at_def none_of_def list_all_length
  by (metis length_list_update nth_list_update_eq nth_list_update_neq option.inject)

lemma only_at_count: "only_at P xs r \<Longrightarrow> length (filter P xs) \<le> 1"
proof (induction xs rule: rev_induct)
  case Nil
  then show ?case by simp
next
  case (snoc x xs)
  have old: "only_at P xs r"
    using snoc.prems by (auto simp: only_at_def nth_append less_Suc_eq)
  show ?case
  proof (cases "P x")
    case True
    with snoc.prems have r: "r = Some (length xs)"
      by (auto simp: only_at_def)
    with snoc.prems have "none_of P xs"
      by (auto simp: only_at_def none_of_def list_all_length nth_append less_Suc_eq)
    then have "filter P xs = []"
      by (simp add: none_of_def list_all_iff filter_empty_conv)
    with True show ?thesis by simp
  next
    case False
    with snoc.IH[OF old] show ?thesis by simp
  qed
qed

lemma none_of_count: "none_of P xs \<Longrightarrow> length (filter P xs) = 0"
  by (simp add: none_of_def list_all_iff filter_empty_conv)

lemma only_at_map:
  assumes "map f xs = map f ys" and "\<And>x. P x = Q (f x)"
  shows "only_at P xs r = only_at P ys r"
proof -
  have len: "length xs = length ys" using assms(1) by (rule map_eq_imp_length_eq)
  have "f (xs ! i) = f (ys ! i)" if "i < length ys" for i
    using assms(1) that len by (metis nth_map)
  with len assms(2) show ?thesis by (simp add: only_at_def)
qed

lemma none_of_map:
  assumes "map f xs = map f ys" and "\<And>x. P x = Q (f x)"
  shows "none_of P xs = none_of P ys"
  using only_at_map[of f xs ys P Q None] assms by (simp add: only_at_None)

lemma map_update_same: "f y = f (xs ! i) \<Longrightarrow> map f (xs[i := y]) = map f xs"
  by (cases "i < length xs") (simp_all add: map_update list_update_same_conv list_update_beyond)

subsection \<open>Callbacks that change nothing the invariant reads\<close>

lemma quiet_refl [simp]: "quiet st st"
  by (simp add: quiet_def)

lemma quiet_inv:
  assumes q: "quiet st st'" and inv: "session_inv st"
  shows "session_inv st'"
proof -
  from q have rs: "map readyState (sockets st') = map readyState (sockets st)"
    and ds: "map disposed (terminals st') = map disposed (terminals st)"
    by (simp_all add: quiet_def)
  have ws: "only_at ws_live (sockets st') r = only_at ws_live (sockets st) r" for r
    by (rule only_at_map[OF rs, where Q = "\<lambda>s. s = CONNECTING \<or> s = OPEN"]) (simp add: ws_live_def)
  have tm: "only_at term_live (terminals st') r = only_at term_live (terminals st) r" for r
    by (rule only_at_map[OF ds, where Q = "\<lambda>d. \<not> d"]) (simp add: term_live_def)
  have lw: "length (sockets st') = length (sockets st)"
    using rs by (rule map_eq_imp_length_eq)
  have lt: "length (terminals st') = length (terminals st)"
    using ds by (rule map_eq_imp_length_eq)
  from inv q show ?thesis
    by (simp add: session_inv_def quiet_def ws tm sessions_valid_def owned_def lw lt
          only_at_None[symmetric] split: option.splits)
qed

lemma clear_ref_proj [simp]:
  "sockets (clear_ref r st) = sockets st"
  "terminals (clear_ref r st) = terminals st"
  "wsRef (clear_ref r st) = wsRef st"
  "xtermRef (clear_ref r st) = xtermRef st"
  "speedUpdateTimerRef (clear_ref r st) = speedUpdateTimerRef st"
  "pingTimerRef (clear_ref r st) = pingTimerRef st"
  "cleanup (clear_ref r st) = cleanup st"
  "sessions (clear_ref r st) = sessions st"
  "length (timers (clear_ref r st)) = length (timers st)"
  by (simp_all add: clear_ref_def clearInterval_def split: option.splits)

lemma upd_ws_proj [simp]:
  "sockets (upd_ws w f st) = (sockets st)[w := f (sockets st ! w)]"
  "terminals (upd_ws w f st) = terminals st"
  "timers (upd_ws w f st) = timers st"
  "wsRef (upd_ws w f st) = wsRef st"
  "xtermRef (upd_ws w f st) = xtermRef st"
  "speedUpdateTimerRef (upd_ws w f st) = speedUpdateTimerRef st"
  "pingTimerRef (upd_ws w f st) = pingTimerRef st"
  "cleanup (upd_ws w f st) = cleanup st"
  "sessions (upd_ws w f st) = sessions st"
  by (simp_all add: upd_ws_def)

lemma send_frame_quiet: "quiet st (snd (send_frame w m st))"
  by (auto simp: send_frame_def ws_send_def quiet_def map_update_same
        split: sum.splits ready_state.splits)

lemma onData_quiet: "quiet st (snd (onData s d st))"
  by (simp add: onData_def send_frame_quiet)

lemma handleTerminalResize_quiet: "quiet st (snd (handleTerminalResize s st))"
  by (simp add: handleTerminalResize_def send_frame_quiet)

lemma ping_tick_quiet: "quiet st (snd (ping_tick w st))"
  by (simp add: ping_tick_def send_frame_quiet)

lemma speed_tick_quiet: "quiet st (speed_tick now st)"
  by (simp add: speed_tick_def quiet_def Let_def)

lemma onmessage_quiet: "quiet st (snd (onmessage s ev st))"
  by (auto simp: onmessage_def onmessage_try_def quiet_def Let_def map_update_same term_write_def
        term_writeln_def split: option.splits sum.splits prod.splits)

lemma onerror_quiet: "quiet st (onerror s st)"
  by (simp add: onerror_def quiet_def map_update_same term_writeln_def)

lemma refit_quiet: "quiet st (upd_term t (\<lambda>x. x\<lparr>cols := c, rows := r\<rparr>) st)"
  by (simp add: quiet_def map_update_same)

lemma selection_quiet:
  "quiet st (init_selection st)" "quiet st (handlePodChange x st)"
  "quiet st (handleContainerChange x st)" "quiet st (st\<lparr>props := p\<rparr>)"
  "quiet st (st\<lparr>terminalRef := b\<rparr>)"
  by (simp_all add: quiet_def init_selection_def handlePodChange_def handleContainerChange_def)

subsection \<open>Open, close, cleanup and build keep the invariant\<close>

lemma timers_clear_ref [simp]: "timers (clear_ref r st) = deactivate r (timers st)"
  by (simp add: clear_ref_def deactivate_def split: option.splits)

lemma length_deactivate [simp]: "length (deactivate r ts) = length ts"
  by (simp add: deactivate_def split: option.splits)

lemma inactive_not [simp]:
  "\<not> speed_active (t\<lparr>t_active := False\<rparr>)" "\<not> ping_active (t\<lparr>t_active := False\<rparr>)"
  by (simp_all add: speed_active_def ping_active_def)

lemma deactivate_only_at:
  assumes "\<And>t. \<not> P (t\<lparr>t_active := False\<rparr>)"
  shows "only_at P ts r \<Longrightarrow> only_at P (deactivate q ts) r"
  by (cases q) (simp_all add: deactivate_def only_at_update_not assms)

lemma deactivate_none_of:
  assumes "\<And>t. \<not> P (t\<lparr>t_active := False\<rparr>)"
  shows "none_of P ts \<Longrightarrow> none_of P (deactivate q ts)"
  by (cases q) (simp_all add: deactivate_def none_of_update assms)

lemma deactivate_ref:
  assumes "\<And>t. \<not> P (t\<lparr>t_active := False\<rparr>)"
  shows "only_at P ts r \<Longrightarrow> none_of P (deactivate r ts)"
  by (cases r) (simp_all add: deactivate_def only_at_None only_at_cleared assms)

lemmas speed_deactivate =
  deactivate_only_at[of speed_active, OF inactive_not(1)]
  deactivate_none_of[of speed_active, OF inactive_not(1)]
  deactivate_ref[of speed_active, OF inactive_not(1)]

lemmas ping_deactivate =
  deactivate_only_at[of ping_active, OF inactive_not(2)]
  deactivate_none_of[of ping_active, OF inactive_not(2)]
  deactivate_ref[of ping_active, OF inactive_not(2)]

lemma upd_term_disposed:
  "(\<And>x. disposed (f x) = disposed x) \<Longrightarrow>
   map disposed (terminals (upd_term t f st)) = map disposed (terminals st)"
  by (simp add: map_update_same)

lemma onopen_disposed: "map disposed (terminals (onopen s now st)) = map disposed (terminals st)"
  by (simp add: onopen_def Let_def upd_term_disposed term_writeln_def setInterval_def
        del: upd_term_proj(3))

lemma onopen_proj:
  "sockets (onopen s now st) = sockets st"
  "wsRef (onopen s now st) = wsRef st"
  "xtermRef (onopen s now st) = xtermRef st"
  "cleanup (onopen s now st) = cleanup st"
  "sessions (onopen s now st) = sessions st"
  "speedUpdateTimerRef (onopen s now st) = Some (length (timers st))"
  "pingTimerRef (onopen s now st) = Some (Suc (length (timers st)))"
  "timers (onopen s now st) =
     deactivate (pingTimerRef st)
       (deactivate (speedUpdateTimerRef st) (timers st) @
          [\<lparr>t_kind = SpeedTimer, t_period = 500, t_active = True\<rparr>]) @
     [\<lparr>t_kind = PingTimer (s_ws s), t_period = 30000, t_active = True\<rparr>]"
  by (simp_all add: onopen_def Let_def setInterval_def)

lemma clearInterval_frame [simp]:
  "sockets (clearInterval i st) = sockets st"
  "terminals (clearInterval i st) = terminals st"
  "wsRef (clearInterval i st) = wsRef st"
  "xtermRef (clearInterval i st) = xtermRef st"
  "fitAddonRef (clearInterval i st) = fitAddonRef st"
  "speedUpdateTimerRef (clearInterval i st) = speedUpdateTimerRef st"
  "pingTimerRef (clearInterval i st) = pingTimerRef st"
  "cleanup (clearInterval i st) = cleanup st"
  "sessions (clearInterval i st) = sessions st"
  "networkSpeed (clearInterval i st) = networkSpeed st"
  "isConnected (clearInterval i st) = isConnected st"
  by (simp_all add: clearInterval_def)

lemma onopen_inv:
  assumes inv: "session_inv st" and own: "cleanup st \<noteq> None"
  shows "session_inv (onopen s now st)"
proof -
  let ?T = "timers st"
  let ?T1 = "deactivate (speedUpdateTimerRef st) ?T"
  let ?sp = "\<lparr>t_kind = SpeedTimer, t_period = 500, t_active = True\<rparr>"
  let ?T2 = "deactivate (pingTimerRef st) (?T1 @ [?sp])"
  let ?pg = "\<lparr>t_kind = PingTimer (s_ws s), t_period = 30000, t_active = True\<rparr>"
  from inv have sp: "only_at speed_active ?T (speedUpdateTimerRef st)"
    and pg: "only_at ping_active ?T (pingTimerRef st)"
    by (simp_all add: session_inv_def)
  have "none_of speed_active ?T1" using sp by (rule speed_deactivate)
  then have "only_at speed_active (?T1 @ [?sp]) (Some (length ?T))"
    using only_at_snoc_new[of speed_active ?T1 ?sp] by simp
  then have "only_at speed_active ?T2 (Some (length ?T))" by (rule speed_deactivate)
  then have speed: "only_at speed_active (?T2 @ [?pg]) (Some (length ?T))"
    by (rule only_at_snoc_old) (simp add: speed_active_def)
  have "only_at ping_active ?T1 (pingTimerRef st)" using pg by (rule ping_deactivate)
  then have "only_at ping_active (?T1 @ [?sp]) (pingTimerRef st)"
    by (rule only_at_snoc_old) (simp add: ping_active_def)
  then have "none_of ping_active ?T2" by (rule ping_deactivate)
  then have ping: "only_at ping_active (?T2 @ [?pg]) (Some (Suc (length ?T)))"
    using only_at_snoc_new[of ping_active ?T2 ?pg] by simp
  have tm: "only_at term_live (terminals (onopen s now st)) r = only_at term_live (terminals st) r" for r
    by (rule only_at_map[OF onopen_disposed, where Q = "\<lambda>d. \<not> d"]) (simp add: term_live_def)
  have lt: "length (terminals (onopen s now st)) = length (terminals st)"
    using onopen_disposed by (rule map_eq_imp_length_eq)
  from inv own speed ping show ?thesis
    by (auto simp: session_inv_def onopen_proj tm lt sessions_valid_def owned_def)
qed

lemma onclose_proj:
  "sockets (onclose s code st) = sockets st"
  "wsRef (onclose s code st) = wsRef st"
  "xtermRef (onclose s code st) = xtermRef st"
  "cleanup (onclose s code st) = cleanup st"
  "sessions (onclose s code st) = sessions st"
  "speedUpdateTimerRef (onclose s code st) = None"
  "pingTimerRef (onclose s code st) = None"
  "networkSpeed (onclose s code st) = (0, 0)"
  "isConnected (onclose s code st) = False"
  "timers (onclose s code st) = deactivate (pingTimerRef st) (deactivate (speedUpdateTimerRef st) (timers st))"
  by (simp_all add: onclose_def Let_def deactivate_def split: option.splits)

lemma onclose_disposed: "map disposed (terminals (onclose s code st)) = map disposed (terminals st)"
  by (simp add: onclose_def Let_def upd_term_disposed term_writeln_def
        del: upd_term_proj(3) split: option.splits)

lemma onclose_timers:
  assumes "session_inv st"
  shows "none_of speed_active (timers (onclose s code st))"
    and "none_of ping_active (timers (onclose s code st))"
proof -
  from assms have sp: "only_at speed_active (timers st) (speedUpdateTimerRef st)"
    and pg: "only_at ping_active (timers st) (pingTimerRef st)"
    by (simp_all add: session_inv_def)
  have "none_of speed_active (deactivate (speedUpdateTimerRef st) (timers st))"
    using sp by (rule speed_deactivate)
  then show "none_of speed_active (timers (onclose s code st))"
    unfolding onclose_proj by (rule speed_deactivate)
  have "only_at ping_active (deactivate (speedUpdateTimerRef st) (timers st)) (pingTimerRef st)"
    using pg by (rule ping_deactivate)
  then show "none_of ping_active (timers (onclose s code st))"
    unfolding onclose_proj by (rule ping_deactivate)
qed

lemma onclose_inv:
  assumes inv: "session_inv st"
  shows "session_inv (onclose s code st)"
proof -
  have tm: "only_at term_live (terminals (onclose s code st)) r = only_at term_live (terminals st) r" for r
    by (rule only_at_map[OF onclose_disposed, where Q = "\<lambda>d. \<not> d"]) (simp add: term_live_def)
  have lt: "length (terminals (onclose s code st)) = length (terminals st)"
    using onclose_disposed by (rule map_eq_imp_length_eq)
  have tn: "none_of term_live (terminals (onclose s code st)) = none_of term_live (terminals st)"
    by (rule none_of_map[OF onclose_disposed, where Q = "\<lambda>d. \<not> d"]) (simp add: term_live_def)
  from inv onclose_timers[OF inv, of s code] show ?thesis
    by (auto simp: session_inv_def onclose_proj(1-7) tm tn lt sessions_valid_def owned_def only_at_None
          split: option.splits)
qed

lemma ws_set_inv:
  assumes inv: "session_inv st" and "ws_live x \<Longrightarrow> ws_live (sockets st ! w)"
  shows "session_inv (upd_ws w (\<lambda>ws. x) st)"
proof -
  have a: "only_at ws_live ((sockets st)[w := x]) (wsRef st)"
    using inv assms(2) by (auto simp: session_inv_def intro: only_at_update)
  have b: "none_of ws_live ((sockets st)[w := x])" if "none_of ws_live (sockets st)"
  proof (cases "w < length (sockets st)")
    case True
    with that have "\<not> ws_live (sockets st ! w)" by (simp add: none_of_def list_all_length)
    with assms(2) have "\<not> ws_live x" by blast
    with that show ?thesis by (rule none_of_update)
  next
    case False
    with that show ?thesis by (simp add: list_update_beyond)
  qed
  from inv a b show ?thesis
    by (auto simp: session_inv_def sessions_valid_def owned_def split: option.splits)
qed

lemma run_cleanup_proj:
  "cleanup st = Some sid \<Longrightarrow>
   sockets (run_cleanup st) =
     (sockets st)[s_ws (sessions st ! sid) := ws_close None (sockets st ! s_ws (sessions st ! sid))] \<and>
   terminals (run_cleanup st) =
     (terminals st)[s_term (sessions st ! sid) := term_dispose (terminals st ! s_term (sessions st ! sid))] \<and>
   timers (run_cleanup st) =
     deactivate (pingTimerRef st) (deactivate (speedUpdateTimerRef st) (timers st)) \<and>
   sessions (run_cleanup st) = (sessions st)[sid := (sessions st ! sid)\<lparr>s_observing := False\<rparr>] \<and>
   cleanup (run_cleanup st) = None \<and> wsRef (run_cleanup st) = wsRef st \<and>
   xtermRef (run_cleanup st) = xtermRef st \<and>
   speedUpdateTimerRef (run_cleanup st) = speedUpdateTimerRef st \<and>
   pingTimerRef (run_cleanup st) = pingTimerRef st"
  by (simp add: run_cleanup_def Let_def)

lemma not_live_closed [simp]: "\<not> ws_live (ws_close c ws)"
  by (simp add: ws_live_def ws_close_def split: ready_state.splits)

lemma not_live_disposed [simp]: "\<not> term_live (term_dispose x)"
  by (simp add: term_live_def term_dispose_def)

lemma run_cleanup_inv:
  assumes inv: "session_inv st"
  shows "session_inv (run_cleanup st) \<and> cleanup (run_cleanup st) = None"
proof (cases "cleanup st")
  case None
  with inv show ?thesis by (simp add: run_cleanup_def)
next
  case (Some sid)
  note p = run_cleanup_proj[OF Some]
  let ?s = "sessions st ! sid"
  from inv Some have w: "wsRef st = Some (s_ws ?s)" and t: "xtermRef st = Some (s_term ?s)"
    and sid: "sid < length (sessions st)"
    by (simp_all add: session_inv_def owned_def)
  from inv have ws: "only_at ws_live (sockets st) (wsRef st)"
    and tm: "only_at term_live (terminals st) (xtermRef st)"
    and sp: "only_at speed_active (timers st) (speedUpdateTimerRef st)"
    and pg: "only_at ping_active (timers st) (pingTimerRef st)"
    and sv: "sessions_valid st"
    by (simp_all add: session_inv_def)
  have ws': "none_of ws_live (sockets (run_cleanup st))"
    using ws unfolding w by (simp add: p only_at_cleared)
  have tm': "none_of term_live (terminals (run_cleanup st))"
    using tm unfolding t by (simp add: p only_at_cleared)
  have "none_of speed_active (deactivate (speedUpdateTimerRef st) (timers st))"
    using sp by (rule speed_deactivate)
  then have sp': "none_of speed_active (timers (run_cleanup st))"
    by (simp add: p speed_deactivate)
  have "only_at ping_active (deactivate (speedUpdateTimerRef st) (timers st)) (pingTimerRef st)"
    using pg by (rule ping_deactivate)
  then have pg': "none_of ping_active (timers (run_cleanup st))"
    by (simp add: p ping_deactivate)
  have sv': "sessions_valid (run_cleanup st)"
    using sv sid by (auto simp: sessions_valid_def p list_all_length nth_list_update)
  from ws' tm' sp' pg' sv' show ?thesis
    by (simp add: session_inv_def owned_def only_at_none p)
qed

lemma dispose_previous_proj:
  "sockets (dispose_previous st) =
     (case wsRef st of None \<Rightarrow> sockets st
      | Some w \<Rightarrow> (sockets st)[w := ws_close None (sockets st ! w)])"
  "terminals (dispose_previous st) =
     (case xtermRef st of None \<Rightarrow> terminals st
      | Some t \<Rightarrow> (terminals st)[t := term_dispose (terminals st ! t)])"
  "timers (dispose_previous st) = timers st"
  "sessions (dispose_previous st) = sessions st"
  "cleanup (dispose_previous st) = cleanup st"
  "wsRef (dispose_previous st) = wsRef st"
  "xtermRef (dispose_previous st) = xtermRef st"
  "speedUpdateTimerRef (dispose_previous st) = speedUpdateTimerRef st"
  "pingTimerRef (dispose_previous st) = pingTimerRef st"
  by (simp_all add: dispose_previous_def Let_def split: option.splits)

lemma dispose_previous_none:
  assumes "session_inv st"
  shows "none_of ws_live (sockets (dispose_previous st))"
    and "none_of term_live (terminals (dispose_previous st))"
proof -
  from assms have ws: "only_at ws_live (sockets st) (wsRef st)"
    and tm: "only_at term_live (terminals st) (xtermRef st)"
    by (simp_all add: session_inv_def)
  show "none_of ws_live (sockets (dispose_previous st))"
    using ws by (cases "wsRef st") (simp_all add: dispose_previous_proj only_at_None only_at_cleared)
  show "none_of term_live (terminals (dispose_previous st))"
    using tm by (cases "xtermRef st") (simp_all add: dispose_previous_proj only_at_None only_at_cleared)
qed

lemma connect_proj:
  "sockets (connect pg st) =
     sockets st @ [\<lparr>ws_url = wsUrl pg st, readyState = CONNECTING, ws_sent = [], ws_closes = []\<rparr>]"
  "terminals (connect pg st) =
     terminals st @ [\<lparr>disposed = False,
                      cols = (case fit_size pg of None \<Rightarrow> 80 | Some (c, r) \<Rightarrow> c),
                      rows = (case fit_size pg of None \<Rightarrow> 24 | Some (c, r) \<Rightarrow> r),
                      term_out = []\<rparr>]"
  "timers (connect pg st) =
     timers st @ [\<lparr>t_kind = ResizeTimeout (length (sessions st)), t_period = 100, t_active = True\<rparr>]"
  "sessions (connect pg st) =
     sessions st @ [\<lparr>s_term = length (terminals st), s_ws = length (sockets st),
                     s_type = p_type (props st), s_observing = True\<rparr>]"
  "cleanup (connect pg st) = Some (length (sessions st))"
  "wsRef (connect pg st) = Some (length (sockets st))"
  "xtermRef (connect pg st) = Some (length (terminals st))"
  "speedUpdateTimerRef (connect pg st) = speedUpdateTimerRef st"
  "pingTimerRef (connect pg st) = pingTimerRef st"
  by (simp_all add: connect_def Let_def setInterval_def)

lemma connect_inv:
  assumes ws: "none_of ws_live (sockets st)" and tm: "none_of term_live (terminals st)"
    and sp: "only_at speed_active (timers st) (speedUpdateTimerRef st)"
    and pg: "only_at ping_active (timers st) (pingTimerRef st)"
    and sv: "sessions_valid st"
  shows "session_inv (connect pg' st)"
proof -
  have a: "only_at ws_live (sockets (connect pg' st)) (wsRef (connect pg' st))"
    using ws by (simp add: connect_proj only_at_snoc_new)
  have b: "only_at term_live (terminals (connect pg' st)) (xtermRef (connect pg' st))"
    using tm by (simp add: connect_proj only_at_snoc_new)
  have c: "only_at speed_active (timers (connect pg' st)) (speedUpdateTimerRef (connect pg' st))"
    using sp by (simp add: connect_proj only_at_snoc_old speed_active_def)
  have d: "only_at ping_active (timers (connect pg' st)) (pingTimerRef (connect pg' st))"
    using pg by (simp add: connect_proj only_at_snoc_old ping_active_def)
  have e: "sessions_valid (connect pg' st)"
    using sv by (auto simp: sessions_valid_def connect_proj list_all_length nth_append)
  have f: "owned (connect pg' st)"
    by (simp add: owned_def connect_proj)
  from a b c d e f show ?thesis by (simp add: session_inv_def)
qed

lemma lifecycle_effect_inv:
  assumes "session_inv st"
  shows "session_inv (lifecycle_effect pg st)"
proof -
  have "session_inv (connect pg (dispose_previous st))"
  proof (rule connect_inv)
    show "none_of ws_live (sockets (dispose_previous st))"
      and "none_of term_live (terminals (dispose_previous st))"
      using dispose_previous_none[OF assms] by simp_all
    show "only_at speed_active (timers (dispose_previous st)) (speedUpdateTimerRef (dispose_previous st))"
      and "only_at ping_active (timers (dispose_previous st)) (pingTimerRef (dispose_previous st))"
      using assms by (simp_all add: dispose_previous_proj session_inv_def)
    show "sessions_valid (dispose_previous st)"
      using assms
      by (simp add: session_inv_def sessions_valid_def dispose_previous_proj split: option.splits)
  qed
  with assms show ?thesis by (simp add: lifecycle_effect_def)
qed

lemma rebuild_inv: "session_inv st \<Longrightarrow> session_inv (rebuild pg st)"
  by (simp add: rebuild_def lifecycle_effect_inv run_cleanup_inv)

lemma commit_lifecycle_inv: "session_inv st \<Longrightarrow> session_inv (commit_lifecycle pg old st)"
  by (simp add: commit_lifecycle_def rebuild_inv)

lemma initial_inv: "session_inv (initial p)"
  by (simp add: session_inv_def initial_def only_at_def sessions_valid_def owned_def none_of_def)

lemma mount_inv: "session_inv (mount pg p)"
  unfolding mount_def Let_def
  by (intro commit_lifecycle_inv quiet_inv[OF selection_quiet(1)] lifecycle_effect_inv initial_inv)

lemma render_inv: "session_inv st \<Longrightarrow> session_inv (render pg p again st)"
  unfolding render_def Let_def
  by (auto intro!: commit_lifecycle_inv quiet_inv[OF selection_quiet(1)] quiet_inv[OF selection_quiet(4)])

lemma clearInterval_inv: "session_inv st \<Longrightarrow> session_inv (clearInterval i st)"
  by (auto simp: session_inv_def sessions_valid_def owned_def only_at_update_not none_of_update
        split: option.splits)

lemma fire_timer_inv: "session_inv st \<Longrightarrow> session_inv (fire_timer i now st)"
  unfolding fire_timer_def
  by (auto split: timer_kind.splits
        intro: quiet_inv[OF speed_tick_quiet] quiet_inv[OF ping_tick_quiet]
          quiet_inv[OF handleTerminalResize_quiet] clearInterval_inv)

lemma live_session_owned:
  assumes inv: "session_inv st" and sid: "sid < length (sessions st)"
    and live: "ws_live (sockets st ! s_ws (sessions st ! sid))"
  shows "cleanup st \<noteq> None"
proof
  assume none: "cleanup st = None"
  from inv sid have "s_ws (sessions st ! sid) < length (sockets st)"
    by (simp add: session_inv_def sessions_valid_def list_all_length)
  moreover from inv none have "none_of ws_live (sockets st)"
    by (simp add: session_inv_def owned_def)
  ultimately have "\<not> ws_live (sockets st ! s_ws (sessions st ! sid))"
    by (simp add: none_of_def list_all_length)
  with live show False by contradiction
qed

lemma step_inv:
  assumes inv: "session_inv st"
  shows "session_inv (step pg e st)"
proof (cases e)
  case (Render p again)
  with inv show ?thesis by (simp add: step_def render_inv)
next
  case (SelectPod x)
  with inv show ?thesis
    by (simp add: step_def commit_lifecycle_inv quiet_inv[OF selection_quiet(2)])
next
  case (SelectContainer x)
  with inv show ?thesis
    by (simp add: step_def commit_lifecycle_inv quiet_inv[OF selection_quiet(3)])
next
  case Unmount
  from run_cleanup_inv[OF inv] have "session_inv (run_cleanup st)" by simp
  then have "session_inv ((run_cleanup st)\<lparr>terminalRef := False\<rparr>)"
    by (rule quiet_inv[OF selection_quiet(5)])
  with inv Unmount show ?thesis by (simp add: step_def)
next
  case (WsOpen sid now)
  show ?thesis
  proof (cases "sid < length (sessions st) \<and>
                readyState (sockets st ! s_ws (sessions st ! sid)) = CONNECTING")
    case True
    let ?w = "s_ws (sessions st ! sid)"
    from True have live: "ws_live (sockets st ! ?w)" by (simp add: ws_live_def)
    have own: "cleanup st \<noteq> None"
      using inv True live by (intro live_session_owned[of st sid]) simp_all
    have "session_inv (upd_ws ?w (\<lambda>ws. (sockets st ! ?w)\<lparr>readyState := OPEN\<rparr>) st)"
      using inv live by (rule ws_set_inv)
    then have "session_inv (upd_ws ?w (\<lambda>ws. ws\<lparr>readyState := OPEN\<rparr>) st)"
      by (simp add: upd_ws_def)
    then have "session_inv (onopen (sessions st ! sid) now (upd_ws ?w (\<lambda>ws. ws\<lparr>readyState := OPEN\<rparr>) st))"
      using own by (intro onopen_inv) simp_all
    with WsOpen True show ?thesis by (simp add: step_def)
  next
    case False
    with WsOpen inv show ?thesis by (auto simp: step_def)
  qed
next
  case (WsMessage sid ev)
  with inv show ?thesis by (simp add: step_def quiet_inv[OF onmessage_quiet])
next
  case (WsError sid)
  with inv show ?thesis by (simp add: step_def quiet_inv[OF onerror_quiet])
next
  case (WsClosing sid)
  let ?w = "s_ws (sessions st ! sid)"
  have "session_inv (upd_ws ?w (\<lambda>ws. (sockets st ! ?w)\<lparr>readyState := CLOSING\<rparr>) st)"
    using inv by (rule ws_set_inv) (simp add: ws_live_def)
  then have "session_inv (upd_ws ?w (\<lambda>ws. ws\<lparr>readyState := CLOSING\<rparr>) st)"
    by (simp add: upd_ws_def)
  with WsClosing inv show ?thesis by (simp add: step_def)
next
  case (WsClose sid code)
  let ?w = "s_ws (sessions st ! sid)"
  have "session_inv (upd_ws ?w (\<lambda>ws. (sockets st ! ?w)\<lparr>readyState := CLOSED\<rparr>) st)"
    using inv by (rule ws_set_inv) (simp add: ws_live_def)
  then have "session_inv (upd_ws ?w (\<lambda>ws. ws\<lparr>readyState := CLOSED\<rparr>) st)"
    by (simp add: upd_ws_def)
  then have "session_inv (onclose (sessions st ! sid) code (upd_ws ?w (\<lambda>ws. ws\<lparr>readyState := CLOSED\<rparr>) st))"
    by (rule onclose_inv)
  with WsClose inv show ?thesis by (simp add: step_def)
next
  case (Keystroke sid d)
  with inv show ?thesis by (simp add: step_def quiet_inv[OF onData_quiet])
next
  case (ElementResized sid)
  with inv show ?thesis by (simp add: step_def quiet_inv[OF handleTerminalResize_quiet])
next
  case (Refit t c r)
  with inv show ?thesis by (simp add: step_def quiet_inv[OF refit_quiet])
next
  case (TimerFired i now)
  with inv show ?thesis by (simp add: step_def fire_timer_inv)
qed

lemma run_inv: "session_inv st \<Longrightarrow> session_inv (run pg es st)"
  unfolding run_def by (induction es arbitrary: st) (simp_all add: step_inv)

lemma reachable_inv: "session_inv (run pg es (mount pg p))"
  by (rule run_inv[OF mount_inv])

lemma inv_counts:
  assumes "session_inv st"
  shows "live_sockets st \<le> 1" and "live_terminals st \<le> 1"
  using assms only_at_count[of ws_live "sockets st" "wsRef st"]
    only_at_count[of term_live "terminals st" "xtermRef st"]
  by (simp_all add: session_inv_def live_sockets_def live_terminals_def)

lemma none_torn_down:
  assumes "none_of ws_live (sockets st)" and "none_of term_live (terminals st)"
    and "none_of speed_active (timers st)" and "none_of ping_active (timers st)"
  shows "torn_down st"
proof -
  from assms(3,4) have "filter (\<lambda>t. speed_active t \<or> ping_active t) (timers st) = []"
    by (auto simp: none_of_def list_all_iff filter_empty_conv)
  with assms(1,2) show ?thesis
    by (simp add: torn_down_def live_sockets_def live_terminals_def running_intervals_def none_of_count)
qed

lemma inv_rebuild_ordered:
  assumes inv: "session_inv st"
  shows "rebuild_ordered pg st"
proof -
  let ?torn = "run_cleanup st"
  let ?mid = "dispose_previous ?torn"
  from run_cleanup_inv[OF inv] have tinv: "session_inv ?torn" and tc: "cleanup ?torn = None"
    by simp_all
  then have tn: "none_of ws_live (sockets ?torn)" "none_of term_live (terminals ?torn)"
    "none_of speed_active (timers ?torn)" "none_of ping_active (timers ?torn)"
    by (simp_all add: session_inv_def owned_def)
  then have a: "torn_down ?torn" by (rule none_torn_down)
  have b: "torn_down ?mid"
    using dispose_previous_none[OF tinv] tn(3,4)
    by (intro none_torn_down) (simp_all add: dispose_previous_proj)
  have c: "rebuild pg st = connect pg ?mid \<or> rebuild pg st = ?torn"
    by (simp add: rebuild_def lifecycle_effect_def)
  have d: "live_sockets (rebuild pg st) \<le> 1" "live_terminals (rebuild pg st) \<le> 1"
    using inv_counts[OF rebuild_inv[OF inv]] by simp_all
  have e: "disposed (terminals ?torn ! s_term (sessions st ! sid)) \<and>
           ws_closes (sockets ?torn ! s_ws (sessions st ! sid)) =
             ws_closes (sockets st ! s_ws (sessions st ! sid)) @ [None]"
    if some: "cleanup st = Some sid" for sid
  proof -
    from inv some have "sid < length (sessions st)" by (simp add: session_inv_def owned_def)
    with inv have "s_ws (sessions st ! sid) < length (sockets st)"
      and "s_term (sessions st ! sid) < length (terminals st)"
      by (simp_all add: session_inv_def sessions_valid_def list_all_length)
    then show ?thesis
      by (simp add: run_cleanup_proj[OF some] term_dispose_def ws_close_def)
  qed
  from a b c d e show ?thesis
    by (simp add: rebuild_ordered_def split: option.splits)
qed

subsection \<open>The concrete session, continued\<close>

lemma run_Cons: "run pg (e # es) st = run pg es (step pg e st)"
  by (simp add: run_def)

lemma run_Nil: "run pg [] st = st"
  by (simp add: run_def)

lemma scenario_open_step:
  "step scenario_page (WsOpen 0 1000) (mount scenario_page scenario_props) = scenario_open"
  by (simp add: scenario_open_def run_def)

lemma stdin_ls: "stdin_message ''ls'' = [CHR ''{'', CHR 0x22] @ ''type'' @ [CHR 0x22, CHR '':'', CHR 0x22] @ ''stdin'' @
     [CHR 0x22, CHR '','', CHR 0x22] @ ''data'' @ [CHR 0x22, CHR '':'', CHR 0x22] @ ''ls'' @ [CHR 0x22, CHR ''}'']"
  by (simp add: stdin_message_def json_string_def json_escape_char_def)

lemma scenario_busy_facts:
  "networkSpeed scenario_busy = (28, 0)"
  "sessions scenario_busy = [session0]"
  "readyState (sockets scenario_busy ! 0) = OPEN"
  "timers scenario_busy = timers scenario_open"
  "speedUpdateTimerRef scenario_busy = Some 1"
  "pingTimerRef scenario_busy = Some 2"
  unfolding scenario_busy_def run_Cons run_Nil scenario_open_step
  by (simp_all add: scenario_opened step_def onData_def send_frame_def ws_send_def
        updateNetworkStats_def fire_timer_def speed_tick_def stdin_ls session0_def Let_def)

lemma scenario_switched:
  "run scenario_page [SelectPod (Some ''web-2'')] scenario_open =
     \<lparr>props = scenario_props, selectedPod = ''web-2'', selectedContainer = ''app'',
      isConnected = False, networkSpeed = (0, 0), terminalRef = True,
      xtermRef = Some 1, fitAddonRef = Some 1, wsRef = Some 1,
      networkStatsRef = \<lparr>lastReset = 1000, bytesReceived = 0, bytesSent = 0, lastUpdate = 1000\<rparr>,
      speedUpdateTimerRef = Some 1, pingTimerRef = Some 2,
      terminals = [\<lparr>disposed = True, cols = 120, rows = 40,
                    term_out = [Writeln (green ''Connected to pod terminal!''), Writeln []]\<rparr>,
                   \<lparr>disposed = False, cols = 120, rows = 40, term_out = []\<rparr>],
      sockets = [\<lparr>ws_url = ''wss://kite.local/api/v1/terminal/default/web-1/ws?container=app&x-cluster-name=c1'',
                  readyState = CLOSING, ws_sent = [], ws_closes = [None, None]\<rparr>,
                 \<lparr>ws_url = ''wss://kite.local/api/v1/terminal/default/web-2/ws?container=app&x-cluster-name=c1'',
                  readyState = CONNECTING, ws_sent = [], ws_closes = []\<rparr>],
      timers = [\<lparr>t_kind = ResizeTimeout 0, t_period = 100, t_active = True\<rparr>,
                \<lparr>t_kind = SpeedTimer, t_period = 500, t_active = False\<rparr>,
                \<lparr>t_kind = PingTimer 0, t_period = 30000, t_active = False\<rparr>,
                \<lparr>t_kind = ResizeTimeout 1, t_period = 100, t_active = True\<rparr>],
      sessions = [session0\<lparr>s_observing := False\<rparr>,
                  \<lparr>s_term = 1, s_ws = 1, s_type = Pod, s_observing = True\<rparr>],
      cleanup = Some 1, console = []\<rparr>"
  unfolding run_Cons run_Nil
  by (simp add: scenario_opened step_def handlePodChange_def or_else_def commit_lifecycle_def
        lifecycle_deps_def rebuild_def run_cleanup_def lifecycle_effect_def dispose_previous_def
        connect_def wsUrl_def template_def upd_term_def upd_ws_def clear_ref_def clearInterval_def
        setInterval_def term_dispose_def ws_close_def scenario_props_def scenario_page_def
        session0_def Let_def)

subsection \<open>Teardown before build\<close>

text \<open>
  Claim C1, as amended. In every state the component can reach, at most one socket is
  live and at most one emulator is live. Whenever the lifecycle effect re-runs (\<open>st0\<close>:
  on mount, once the first effect has set the selection; \<open>st1\<close>: after any event,
  for any new props and selection; \<open>st2\<close>: a second time in the same render, with
  the selection changed again), the rebuild is ordered: the previous emulator is
  disposed, the previous socket has \<^verbatim>\<open>close()\<close> called on it with no status code,
  and no sampling or keepalive timer runs, all before the new emulator and socket are
  created. An unmount is the cleanup alone.
\<close>

theorem C1_teardown_before_build:
  "let st = run pg es (mount pg p);
       st0 = init_selection (lifecycle_effect pg (initial p));
       st1 = st\<lparr>props := p', selectedPod := a, selectedContainer := b\<rparr>;
       st2 = (rebuild pg st1)\<lparr>selectedPod := a', selectedContainer := b'\<rparr>
   in live_sockets st \<le> 1 \<and> live_terminals st \<le> 1 \<and>
      rebuild_ordered pg st0 \<and> rebuild_ordered pg st1 \<and> rebuild_ordered pg st2"
proof -
  let ?st0 = "init_selection (lifecycle_effect pg (initial p))"
  have inv0: "session_inv ?st0"
    by (intro quiet_inv[OF selection_quiet(1)] lifecycle_effect_inv initial_inv)
  let ?st = "run pg es (mount pg p)"
  let ?st1 = "?st\<lparr>props := p', selectedPod := a, selectedContainer := b\<rparr>"
  let ?st2 = "(rebuild pg ?st1)\<lparr>selectedPod := a', selectedContainer := b'\<rparr>"
  have inv: "session_inv ?st" by (rule reachable_inv)
  have "quiet ?st ?st1" by (simp add: quiet_def)
  then have inv1: "session_inv ?st1" using inv by (rule quiet_inv)
  have "quiet (rebuild pg ?st1) ?st2" by (simp add: quiet_def)
  then have inv2: "session_inv ?st2" using rebuild_inv[OF inv1] by (rule quiet_inv)
  from inv_counts[OF inv] inv_rebuild_ordered[OF inv0] inv_rebuild_ordered[OF inv1]
    inv_rebuild_ordered[OF inv2]
  show ?thesis by (simp add: Let_def)
qed

theorem C1_teardown_before_build_witness:
  "live_sockets scenario_open \<le> 1 \<and> live_terminals scenario_open \<le> 1 \<and>
   rebuild_ordered scenario_page
     (scenario_open\<lparr>props := scenario_props, selectedPod := ''web-2'', selectedContainer := ''app''\<rparr>)"
  using C1_teardown_before_build[where pg = scenario_page and es = "[WsOpen 0 1000]"
      and p = scenario_props and p' = scenario_props and a = "''web-2''" and b = "''app''"
      and a' = "''web-2''" and b' = "''app''", folded scenario_open_def]
  by (simp add: Let_def)

text \<open>
  The claim as stated has the socket closed with the normal-closure code. Switching
  from \<^verbatim>\<open>web-1\<close> to \<^verbatim>\<open>web-2\<close> closes the first socket twice (cleanup, then the
  head of the effect), both times without any code.
\<close>

theorem C1_counterexample:
  "ws_closes (sockets (run scenario_page [SelectPod (Some ''web-2'')] scenario_open) ! 0) = [None, None] \<and>
   Some 1000 \<notin> set (ws_closes (sockets (run scenario_page [SelectPod (Some ''web-2'')] scenario_open) ! 0)) \<and>
   readyState (sockets (run scenario_page [SelectPod (Some ''web-2'')] scenario_open) ! 0) = CLOSING \<and>
   disposed (terminals (run scenario_page [SelectPod (Some ''web-2'')] scenario_open) ! 0) \<and>
   readyState (sockets (run scenario_page [SelectPod (Some ''web-2'')] scenario_open) ! 1) = CONNECTING"
  by (simp add: scenario_switched)

subsection \<open>The entry guard\<close>

text \<open>
  Claim C5 fails on the code. With a non-empty \<^verbatim>\<open>pods\<close> prop the guard does not look
  at the selected pod: after \<^verbatim>\<open>handlePodChange(undefined)\<close> the selection is empty
  and the effect still opens a socket, to an address with an empty pod segment.
\<close>

theorem C5_connects_without_pod:
  "selectedPod (run scenario_page [SelectPod None] scenario_open) = [] \<and>
   length (sockets (run scenario_page [SelectPod None] scenario_open)) = 2 \<and>
   wsRef (run scenario_page [SelectPod None] scenario_open) = Some 1 \<and>
   readyState (sockets (run scenario_page [SelectPod None] scenario_open) ! 1) = CONNECTING \<and>
   ws_url (sockets (run scenario_page [SelectPod None] scenario_open) ! 1) =
     ''wss://kite.local/api/v1/terminal/default//ws?container=app&x-cluster-name=c1''"
  unfolding run_Cons run_Nil
  by (simp add: scenario_opened step_def handlePodChange_def or_else_def commit_lifecycle_def
        lifecycle_deps_def rebuild_def run_cleanup_def lifecycle_effect_def dispose_previous_def
        connect_def wsUrl_def template_def upd_term_def upd_ws_def clear_ref_def clearInterval_def
        setInterval_def term_dispose_def ws_close_def scenario_props_def scenario_page_def
        session0_def Let_def)

subsection \<open>Traffic rates and keepalive after a close\<close>

lemma send_frame_speed: "networkSpeed (snd (send_frame w m st)) = networkSpeed st"
  by (simp add: send_frame_def split: sum.splits)

lemma fire_timer_speed:
  assumes "\<not> speed_active (timers st ! i)" and "t_active (timers st ! i)"
  shows "networkSpeed (fire_timer i now st) = networkSpeed st"
  using assms
  by (auto simp: fire_timer_def speed_active_def ping_tick_def handleTerminalResize_def
        send_frame_speed split: timer_kind.splits)

text \<open>
  Claim C8. In any reachable state, the close event of a socket sets the displayed rates
  to zero and leaves no sampling timer running, so that whatever timer fires next, the
  rates still read zero.
\<close>

theorem C8_rates_reset_on_close:
  assumes "sid < length (sessions (run pg es (mount pg p)))"
    and "readyState (sockets (run pg es (mount pg p)) !
           s_ws (sessions (run pg es (mount pg p)) ! sid)) \<noteq> CLOSED"
  shows "networkSpeed (step pg (WsClose sid code) (run pg es (mount pg p))) = (0, 0) \<and>
         speedUpdateTimerRef (step pg (WsClose sid code) (run pg es (mount pg p))) = None \<and>
         none_of speed_active (timers (step pg (WsClose sid code) (run pg es (mount pg p)))) \<and>
         (\<forall>i now. networkSpeed (step pg (TimerFired i now)
                     (step pg (WsClose sid code) (run pg es (mount pg p)))) = (0, 0))"
proof -
  let ?st = "run pg es (mount pg p)"
  let ?w = "s_ws (sessions ?st ! sid)"
  let ?st1 = "upd_ws ?w (\<lambda>ws. ws\<lparr>readyState := CLOSED\<rparr>) ?st"
  let ?st' = "onclose (sessions ?st ! sid) code ?st1"
  have eq: "step pg (WsClose sid code) ?st = ?st'"
    using assms by (simp add: step_def)
  have "session_inv (upd_ws ?w (\<lambda>ws. (sockets ?st ! ?w)\<lparr>readyState := CLOSED\<rparr>) ?st)"
    using reachable_inv by (rule ws_set_inv) (simp add: ws_live_def)
  then have inv1: "session_inv ?st1" by (simp add: upd_ws_def)
  have none: "none_of speed_active (timers ?st')"
    using inv1 by (rule onclose_timers)
  have tick: "networkSpeed (step pg (TimerFired i now) ?st') = (0, 0)" for i now
  proof (cases "i < length (timers ?st') \<and> t_active (timers ?st' ! i)")
    case True
    with none have "\<not> speed_active (timers ?st' ! i)"
      by (simp add: none_of_def list_all_length)
    with True show ?thesis
      by (simp add: step_def fire_timer_speed onclose_proj)
  next
    case False
    then show ?thesis by (auto simp: step_def onclose_proj)
  qed
  from none tick show ?thesis unfolding eq by (simp add: onclose_proj)
qed

theorem C8_rates_reset_on_close_witness:
  "0 < length (sessions scenario_busy) \<and>
   readyState (sockets scenario_busy ! s_ws (sessions scenario_busy ! 0)) \<noteq> CLOSED \<and>
   networkSpeed scenario_busy = (28, 0) \<and>
   networkSpeed (step scenario_page (WsClose 0 1006) scenario_busy) = (0, 0) \<and>
   speedUpdateTimerRef (step scenario_page (WsClose 0 1006) scenario_busy) = None \<and>
   networkSpeed (step scenario_page (TimerFired 1 2500)
     (step scenario_page (WsClose 0 1006) scenario_busy)) = (0, 0)"
proof -
  have h1: "0 < length (sessions scenario_busy)"
    by (simp add: scenario_busy_facts)
  have h2: "readyState (sockets scenario_busy ! s_ws (sessions scenario_busy ! 0)) \<noteq> CLOSED"
    by (simp add: scenario_busy_facts session0_def)
  note c = C8_rates_reset_on_close[where sid = 0 and pg = scenario_page
      and es = "[WsOpen 0 1000, Keystroke 0 ''ls'', TimerFired 1 2000]" and p = scenario_props
      and code = 1006, folded scenario_busy_def, OF h1 h2]
  from c have "networkSpeed (step scenario_page (TimerFired 1 2500)
     (step scenario_page (WsClose 0 1006) scenario_busy)) = (0, 0)"
    by blast
  with c h1 h2 show ?thesis by (simp add: scenario_busy_facts)
qed

subsection \<open>Every keepalive has the fixed period and a socket\<close>
























end
